theory Spec2Isabelle
  imports Complex_Main
begin

section \<open>The APNs client of \<^verbatim>\<open>src/apns.ts\<close>\<close>

text \<open>
  The client signs a provider token, builds one HTTP request per notification and
  classifies the response. Its only mutable field is the cached signing token; the
  effects on the platform (reading the clock, the signing primitive, the requests handed
  to \<^verbatim>\<open>fetch\<close>, the events emitted) are recorded in an explicit state that every
  operation takes and returns. An exception is a value of type \<open>exn\<close>, and an operation
  that can throw returns \<open>exn + 'a\<close>, with \<open>Inl\<close> for the exception.
\<close>

subsection \<open>Constants\<close>

definition API_VERSION :: int where
  "API_VERSION = 3"

definition SIGNING_ALGORITHM :: string where
  "SIGNING_ALGORITHM = ''ES256''"

definition RESET_TOKEN_INTERVAL_MS :: int where
  "RESET_TOKEN_INTERVAL_MS = 55 * 60 * 1000"

definition Host_production :: string where
  "Host_production = ''api.push.apple.com''"

definition Host_development :: string where
  "Host_development = ''api.sandbox.push.apple.com''"

text \<open>
  Modelled from the spec: the member \<^verbatim>\<open>expiredProviderToken\<close> of the enumeration
  \<^verbatim>\<open>Errors\<close>, whose file \<^verbatim>\<open>errors.js\<close> is not among the sources. It is the reason code of
  an expired provider token; the spec's scenario has the body
  \<^verbatim>\<open>{"reason":"ExpiredProviderToken"}\<close>.
\<close>

definition Errors_expiredProviderToken :: string where
  "Errors_expiredProviderToken = ''ExpiredProviderToken''"

text \<open>
  Modelled from the spec: the member \<^verbatim>\<open>unknownError\<close> of \<^verbatim>\<open>Errors\<close> (\<^verbatim>\<open>errors.js\<close>, not
  among the sources), the reason \<^verbatim>\<open>"Unknown error"\<close> substituted for a body that does not
  parse.
\<close>

definition Errors_unknownError :: string where
  "Errors_unknownError = ''Unknown error''"

text \<open>
  Modelled from the spec: the member \<^verbatim>\<open>error\<close> of \<^verbatim>\<open>Errors\<close> (\<^verbatim>\<open>errors.js\<close>, not among the
  sources), the name of the generic \<^verbatim>\<open>"error"\<close> channel.
\<close>

definition Errors_error :: string where
  "Errors_error = ''error''"

subsection \<open>Data\<close>

record SigningToken =
  tok_value :: string
  tok_timestamp :: int

record ApnsOptions =
  opt_team :: string
  opt_signingKey :: string
  opt_keyId :: string
  opt_defaultTopic :: "string option"
  opt_host :: "string option"
  opt_requestTimeout :: "int option"
  opt_keepAlive :: "bool option"

text \<open>
  The object: its six read-only fields, the private \<^verbatim>\<open>_token\<close>, and of the inherited
  \<^verbatim>\<open>EventEmitter\<close> the number of listeners registered under each event name.
\<close>

record ApnsClient =
  team :: string
  keyId :: string
  host :: string
  signingKey :: string
  defaultTopic :: "string option"
  keepAlive :: bool
  token :: "SigningToken option"
  listenerCount :: "string \<Rightarrow> nat"

text \<open>
  Modelled from the spec: the payload that a notification's \<^verbatim>\<open>buildApnsOptions()\<close>
  returns; the class \<^verbatim>\<open>Notification\<close> of \<^verbatim>\<open>notifications/notification.js\<close> is not among
  the sources. The payload is a value that serialises to JSON, and the client does not
  look inside.
\<close>

datatype json =
  JNull
  | JBool bool
  | JNum int
  | JStr string
  | JArr "json list"
  | JObj "(string \<times> json) list"

text \<open>
  Modelled from the spec: the \<^verbatim>\<open>expiration\<close> of a notification's options
  (\<^verbatim>\<open>notifications/notification.js\<close>, not among the sources), either a number of seconds
  or a calendar instant. A number is a rational here (every finite double is one), and
  an instant is its \<^verbatim>\<open>getTime()\<close>, a whole number of milliseconds; the numbers that are
  not finite and the invalid date are left out.
\<close>

datatype Expiration =
  ExpNumber rat
  | ExpDate int

text \<open>
  Modelled from the spec: the options bag of a notification
  (\<^verbatim>\<open>notifications/notification.js\<close>, not among the sources), with the optional \<^verbatim>\<open>topic\<close>,
  \<^verbatim>\<open>expiration\<close> and \<^verbatim>\<open>collapseId\<close>.
\<close>

record NotificationOptions =
  topic :: "string option"
  expiration :: "Expiration option"
  collapseId :: "string option"

text \<open>
  Modelled from the spec: the class \<^verbatim>\<open>Notification\<close> (\<^verbatim>\<open>notifications/notification.js\<close>,
  not among the sources). A notification exposes a device token, a push type, a priority
  of the enumeration \<^verbatim>\<open>Priority\<close>, which has a numeric value, its options, and the method
  that builds the payload; \<open>buildApnsOptions\<close> holds what the method returns.
\<close>

record Notification =
  deviceToken :: string
  pushType :: string
  priority :: int
  options :: NotificationOptions
  buildApnsOptions :: json

text \<open>
  Modelled from the spec: the interface \<^verbatim>\<open>ApnsResponseError\<close> (\<^verbatim>\<open>errors.js\<close>, not among the
  sources), the body \<^verbatim>\<open>{ reason: string, timestamp?: number }\<close> of a rejection.
\<close>

record ApnsResponseError =
  reason :: string
  timestamp :: "int option"

text \<open>
  Modelled from the spec: the class \<^verbatim>\<open>ApnsError\<close> (\<^verbatim>\<open>errors.js\<close>, not among the sources).
  The fields are what \<^verbatim>\<open>apns.ts\<close> passes to its constructor: the status code, the
  notification and the body.
\<close>

record ApnsError =
  statusCode :: int
  notification :: Notification
  response :: ApnsResponseError

text \<open>
  Modelled from the spec: the property \<^verbatim>\<open>reason\<close> of an \<^verbatim>\<open>ApnsError\<close> (\<^verbatim>\<open>errors.js\<close>, not
  among the sources), the reason code of the body the error was built from.
\<close>

definition error_reason :: "ApnsError \<Rightarrow> string" where
  "error_reason e = reason (response e)"

text \<open>
  Modelled from the spec: the property \<^verbatim>\<open>timestamp\<close> of an \<^verbatim>\<open>ApnsError\<close> (\<^verbatim>\<open>errors.js\<close>,
  not among the sources), the timestamp of the body the error was built from.
\<close>

definition error_timestamp :: "ApnsError \<Rightarrow> int option" where
  "error_timestamp e = timestamp (response e)"

text \<open>
  What can be thrown: the client's own error, whatever the signing primitive throws,
  whatever \<^verbatim>\<open>fetch\<close> rejects with, what \<^verbatim>\<open>res.json()\<close> rejects with on a body that is
  not JSON, and the \<^verbatim>\<open>TypeError\<close> of \<^verbatim>\<open>Headers.set\<close> on a value that is no header value.
\<close>

datatype exn =
  ApnsErr ApnsError
  | SignerError string
  | TransportError string
  | SyntaxError string
  | TypeError string

subsection \<open>The platform\<close>

record SignerOptions =
  key :: string
  algorithm :: string
  kid :: string

record Claims =
  iss :: string
  iat :: int

record Request =
  url :: string
  http_method :: string
  headers :: "string \<rightharpoonup> string"
  body :: string
  keepalive :: bool

text \<open>
  A response is read twice: its status, and what the promise of \<^verbatim>\<open>res.json()\<close> settles
  to, \<open>Inl\<close> when the body does not parse. The cast \<^verbatim>\<open>as ApnsResponseError\<close> of the
  source is the typing of a parsed body.
\<close>

record Response =
  status :: int
  res_json :: "exn + ApnsResponseError"

text \<open>
  Everything the client calls and does not define: the reading that the \<open>k\<close>-th call of
  \<^verbatim>\<open>Date.now()\<close> returns (milliseconds), \<^verbatim>\<open>createSigner(options)(claims)\<close> of fast-jwt,
  what the \<open>k\<close>-th call of \<^verbatim>\<open>fetch\<close> settles to, \<^verbatim>\<open>JSON.stringify\<close>, the digits that a
  number of magnitude \<open>10\<^sup>2\<^sup>1\<close> or more is printed with (the shortest that read back as
  the same double, as one natural number), and the numeric value of
  \<^verbatim>\<open>Priority.immediate\<close>.
\<close>

record platform =
  Date_now_at :: "nat \<Rightarrow> int"
  createSigner :: "SignerOptions \<Rightarrow> Claims \<Rightarrow> exn + string"
  fetch :: "nat \<Rightarrow> Request \<Rightarrow> exn + Response"
  JSON_stringify :: "json \<Rightarrow> string"
  shortest_digits :: "rat \<Rightarrow> nat"
  Priority_immediate :: int

text \<open>
  The state: the client, how often the clock has been read, and the calls made so far to
  the signing primitive, to \<^verbatim>\<open>fetch\<close> and to \<^verbatim>\<open>emit\<close>, oldest first.
\<close>

record state =
  client :: ApnsClient
  ticks :: nat
  signed :: "(SignerOptions \<times> Claims) list"
  fetched :: "Request list"
  emitted :: "(string \<times> ApnsError) list"

definition Date_now :: "platform \<Rightarrow> state \<Rightarrow> int \<times> state" where
  "Date_now p s = (Date_now_at p (ticks s), s\<lparr>ticks := Suc (ticks s)\<rparr>)"

subsection \<open>The constructor\<close>

definition new_ApnsClient :: "ApnsOptions \<Rightarrow> ApnsClient" where
  "new_ApnsClient opts =
     \<lparr>team = opt_team opts,
      keyId = opt_keyId opts,
      host = (case opt_host opts of None \<Rightarrow> Host_production | Some h \<Rightarrow> h),
      signingKey = opt_signingKey opts,
      defaultTopic = opt_defaultTopic opts,
      keepAlive = (case opt_keepAlive opts of None \<Rightarrow> True | Some k \<Rightarrow> k),
      token = None,
      listenerCount = (\<lambda>_. 0)\<rparr>"

definition initial :: "ApnsClient \<Rightarrow> state" where
  "initial c = \<lparr>client = c, ticks = 0, signed = [], fetched = [], emitted = []\<rparr>"

subsection \<open>The signing token\<close>

text \<open>
  \<^verbatim>\<open>_getSigningToken\<close>. The clock is read in the test only when a token is cached
  (\<^verbatim>\<open>&&\<close> does not evaluate its right side otherwise), once more for the claims and once
  more for the stored timestamp. \<^verbatim>\<open>Date.now()\<close> is a whole number, so
  \<^verbatim>\<open>Math.floor(Date.now() / 1000)\<close> is the integer quotient rounded down.
\<close>

definition cached_value :: "platform \<Rightarrow> state \<Rightarrow> string option \<times> state" where
  "cached_value p s =
     (case token (client s) of
        None \<Rightarrow> (None, s)
      | Some t \<Rightarrow>
          (let (now, s1) = Date_now p s
           in (if now - tok_timestamp t < RESET_TOKEN_INTERVAL_MS then Some (tok_value t) else None, s1)))"

definition getSigningToken :: "platform \<Rightarrow> state \<Rightarrow> (exn + string) \<times> state" where
  "getSigningToken p s =
     (let (cached, s1) = cached_value p s
      in case cached of
           Some v \<Rightarrow> (Inr v, s1)
         | None \<Rightarrow>
             (let (now, s2) = Date_now p s1;
                  claims = \<lparr>iss = team (client s2), iat = now div 1000\<rparr>;
                  signer = \<lparr>key = signingKey (client s2), algorithm = SIGNING_ALGORITHM,
                            kid = keyId (client s2)\<rparr>;
                  s3 = s2\<lparr>signed := signed s2 @ [(signer, claims)]\<rparr>
              in case createSigner p signer claims of
                   Inl e \<Rightarrow> (Inl e, s3)
                 | Inr tok \<Rightarrow>
                     (let (stamp, s4) = Date_now p s3
                      in (Inr tok,
                          s4\<lparr>client := (client s4)\<lparr>token :=
                               Some \<lparr>tok_value = tok, tok_timestamp = stamp\<rparr>\<rparr>\<rparr>))))"

subsection \<open>Numbers and strings of the platform\<close>

definition digit :: "nat \<Rightarrow> char" where
  "digit d = ''0123456789ABCDEF'' ! d"

function decimal :: "nat \<Rightarrow> string" where
  "decimal n = (if n < 10 then [digit n] else decimal (n div 10) @ [digit (n mod 10)])"
  by pat_completeness auto
termination
  by (relation "measure (\<lambda>n. n)") auto

declare decimal.simps [simp del]

text \<open>
  The exponent notation of a magnitude of \<open>10\<^sup>2\<^sup>1\<close> or more: the first of the shortest
  digits, a point and the remaining digits if there are any, \<^verbatim>\<open>e+\<close>, and the exponent,
  one less than the number of digits of the whole part.
\<close>

definition exponent_notation :: "platform \<Rightarrow> rat \<Rightarrow> string" where
  "exponent_notation p y =
     (case decimal (shortest_digits p y) of
        [] \<Rightarrow> []
      | d # ds \<Rightarrow>
          d # (if ds = [] then [] else CHR ''.'' # ds) @ ''e+''
            @ decimal (length (decimal (nat \<lfloor>y\<rfloor>)) - 1))"

text \<open>
  \<^verbatim>\<open>Number.prototype.toString()\<close> on a whole number: the decimal digits, a minus sign
  before a negative one, the exponent notation from \<open>10\<^sup>2\<^sup>1\<close> on. Every digit is printed,
  as it is for the whole numbers that a double holds exactly, those up to \<open>2\<^sup>5\<^sup>3\<close> in
  magnitude, among which the members of an enumeration are.
\<close>

definition toString :: "platform \<Rightarrow> int \<Rightarrow> string" where
  "toString p i =
     (if 10 ^ 21 \<le> \<bar>i\<bar>
      then (if i < 0 then [CHR ''-''] else []) @ exponent_notation p (of_int \<bar>i\<bar>)
      else if i < 0 then CHR ''-'' # decimal (nat (- i))
      else decimal (nat i))"

text \<open>
  \<^verbatim>\<open>Number.prototype.toFixed(0)\<close>: the sign is split off, the magnitude is rounded to
  the nearest whole number, the larger one of two equally near, and printed in decimal
  digits; a magnitude of \<open>10\<^sup>2\<^sup>1\<close> or more is printed as \<^verbatim>\<open>toString\<close> does.
\<close>

definition toFixed0 :: "platform \<Rightarrow> rat \<Rightarrow> string" where
  "toFixed0 p x =
     (let s = (if x < 0 then [CHR ''-''] else []);
          y = \<bar>x\<bar>
      in if 10 ^ 21 \<le> y then s @ exponent_notation p y
         else s @ decimal (nat \<lfloor>y + 1 / 2\<rfloor>))"

text \<open>
  \<^verbatim>\<open>encodeURIComponent\<close> on a string held as its UTF-8 bytes: letters, digits and
  \<^verbatim>\<open>- _ . ! ~ * ' ( )\<close> stay, every other byte becomes \<^verbatim>\<open>%\<close> and two hexadecimal digits.
\<close>

definition unreserved :: "char \<Rightarrow> bool" where
  "unreserved c =
     (c \<in> set ''ABCDEFGHIJKLMNOPQRSTUVWXYZabcdefghijklmnopqrstuvwxyz0123456789-_.!~*()''
      \<or> c = CHR 0x27)"

definition escape :: "char \<Rightarrow> string" where
  "escape c =
     (if unreserved c then [c]
      else [CHR ''%'', digit (of_char c div 16), digit (of_char c mod 16)])"

definition encodeURIComponent :: "string \<Rightarrow> string" where
  "encodeURIComponent s = concat (map escape s)"

subsection \<open>Building the request\<close>

text \<open>
  \<^verbatim>\<open>Headers\<close> is a map from names to values. \<^verbatim>\<open>set(name, value)\<close> strips the HTTP white
  space (tab, line feed, carriage return, space) from both ends of the value, throws a
  \<^verbatim>\<open>TypeError\<close> when what remains has a NUL, a line feed or a carriage return in it or
  when the value has a code point above \<open>0xFF\<close>, and otherwise stores the stripped value
  under the name, overwriting. With a string held as its UTF-8 bytes, a code point above
  \<open>0xFF\<close> shows as a byte from \<open>0xC4\<close> on. The names that \<^verbatim>\<open>send\<close> uses are header names.
\<close>

definition http_whitespace :: "char \<Rightarrow> bool" where
  "http_whitespace c = (c = CHR 0x09 \<or> c = CHR 0x0A \<or> c = CHR 0x0D \<or> c = CHR 0x20)"

definition normalize :: "string \<Rightarrow> string" where
  "normalize v = rev (dropWhile http_whitespace (rev (dropWhile http_whitespace v)))"

definition header_value :: "string \<Rightarrow> bool" where
  "header_value v =
     (list_all (\<lambda>c. of_char c < (0xC4 :: nat)) v
      \<and> list_all (\<lambda>c. c \<noteq> CHR 0x00 \<and> c \<noteq> CHR 0x0A \<and> c \<noteq> CHR 0x0D) (normalize v))"

definition Headers_set ::
  "(string \<rightharpoonup> string) \<Rightarrow> string \<Rightarrow> string \<Rightarrow> exn + (string \<rightharpoonup> string)" where
  "Headers_set h name v =
     (if header_value v then Inr (h(name \<mapsto> normalize v))
      else Inl (TypeError ''Invalid header value''))"

text \<open>Statement after statement: the first exception ends the sequence.\<close>

definition and_then :: "exn + 'a \<Rightarrow> ('a \<Rightarrow> exn + 'b) \<Rightarrow> exn + 'b" where
  "and_then r f = (case r of Inl e \<Rightarrow> Inl e | Inr v \<Rightarrow> f v)"

text \<open>
  The first half of \<^verbatim>\<open>send\<close>, up to the call of \<^verbatim>\<open>fetch\<close>. The tests \<^verbatim>\<open>if (apnsTopic)\<close>
  and \<^verbatim>\<open>if (notification.options.collapseId)\<close> are tests of truthiness, which the empty
  string fails, while \<^verbatim>\<open>??\<close> replaces only a missing topic.
\<close>

definition build_headers ::
  "platform \<Rightarrow> ApnsClient \<Rightarrow> string \<Rightarrow> Notification \<Rightarrow> exn + (string \<rightharpoonup> string)" where
  "build_headers p c tok n =
     and_then (Headers_set Map.empty ''authorization'' (''bearer '' @ tok)) (\<lambda>h1.
     and_then (Headers_set h1 ''apns-push-type'' (pushType n)) (\<lambda>h2.
     and_then
       (case (case topic (options n) of None \<Rightarrow> defaultTopic c | Some t \<Rightarrow> Some t) of
          None \<Rightarrow> Inr h2
        | Some t \<Rightarrow> if t = [] then Inr h2 else Headers_set h2 ''apns-topic'' t) (\<lambda>h3.
     and_then
       (if priority n \<noteq> Priority_immediate p
        then Headers_set h3 ''apns-priority'' (toString p (priority n)) else Inr h3) (\<lambda>h4.
     and_then
       (case expiration (options n) of
          None \<Rightarrow> Inr h4
        | Some (ExpNumber x) \<Rightarrow> Headers_set h4 ''apns-expiration'' (toFixed0 p x)
        | Some (ExpDate ms) \<Rightarrow> Headers_set h4 ''apns-expiration'' (toFixed0 p (of_int ms / 1000)))
       (\<lambda>h5.
     case collapseId (options n) of
       None \<Rightarrow> Inr h5
     | Some i \<Rightarrow> if i = [] then Inr h5 else Headers_set h5 ''apns-collapse-id'' i)))))"

definition build_url :: "platform \<Rightarrow> ApnsClient \<Rightarrow> Notification \<Rightarrow> string" where
  "build_url p c n =
     ''https://'' @ host c @ '':443/'' @ toString p API_VERSION @ ''/device/''
       @ encodeURIComponent (deviceToken n)"

definition build_request ::
  "platform \<Rightarrow> ApnsClient \<Rightarrow> string \<Rightarrow> Notification \<Rightarrow> exn + Request" where
  "build_request p c tok n =
     and_then (build_headers p c tok n) (\<lambda>h.
       Inr \<lparr>url = build_url p c n,
            http_method = ''POST'',
            headers = h,
            body = JSON_stringify p (buildApnsOptions n),
            keepalive = keepAlive c\<rparr>)"

text \<open>
  \<^verbatim>\<open>send\<close> is an asynchronous function: it runs without interruption up to
  \<^verbatim>\<open>await fetch(...)\<close>, and an exception before that point, of the signing primitive or
  of \<^verbatim>\<open>Headers.set\<close>, is the rejection of its promise, with \<^verbatim>\<open>fetch\<close> not called.
  \<open>start\<close> is that stretch; when it gets through, it leaves the request with the
  transport, as its \<open>length (fetched s)\<close>-th call.
\<close>

definition start :: "platform \<Rightarrow> Notification \<Rightarrow> state \<Rightarrow> (exn + nat \<times> Request) \<times> state" where
  "start p n s =
     (case getSigningToken p s of
        (Inl e, s1) \<Rightarrow> (Inl e, s1)
      | (Inr tok, s1) \<Rightarrow>
          (case build_request p (client s1) tok n of
             Inl e \<Rightarrow> (Inl e, s1)
           | Inr req \<Rightarrow>
               (Inr (length (fetched s1), req), s1\<lparr>fetched := fetched s1 @ [req]\<rparr>)))"

subsection \<open>Classifying the response\<close>

text \<open>
  \<^verbatim>\<open>emit\<close> is inherited from the \<^verbatim>\<open>EventEmitter\<close> of \<^verbatim>\<open>node:events\<close>: it calls the
  listeners registered under the event name and returns whether there was one, and
  an event named \<^verbatim>\<open>"error"\<close> that no listener is registered for is thrown instead: the
  emitter throws the event's argument when that is an \<^verbatim>\<open>Error\<close>, as the client's error is.
  Listeners are observers: they return, and leave the client as it is.
\<close>

definition emit :: "string \<Rightarrow> ApnsError \<Rightarrow> state \<Rightarrow> (exn + bool) \<times> state" where
  "emit ev e s =
     (let s1 = s\<lparr>emitted := emitted s @ [(ev, e)]\<rparr>
      in if ev = ''error'' \<and> listenerCount (client s) ''error'' = 0 then (Inl (ApnsErr e), s1)
         else (Inr (0 < listenerCount (client s) ev), s1))"

text \<open>\<^verbatim>\<open>res.json().catch(() => ({ reason: Errors.unknownError, timestamp: Date.now() }))\<close>\<close>

definition responseError :: "platform \<Rightarrow> Response \<Rightarrow> state \<Rightarrow> ApnsResponseError \<times> state" where
  "responseError p res s =
     (case res_json res of
        Inr b \<Rightarrow> (b, s)
      | Inl x \<Rightarrow>
          (let (now, s1) = Date_now p s
           in (\<lparr>reason = Errors_unknownError, timestamp = Some now\<rparr>, s1)))"

text \<open>
  The rest of \<^verbatim>\<open>_handleServerResponse\<close> once the body is there: the error is built, the
  token is reset for an expired one, the error is emitted twice and thrown. What leaves
  the function is the exception of the first statement that throws.
\<close>

definition reject :: "Response \<Rightarrow> Notification \<Rightarrow> ApnsResponseError \<Rightarrow> state \<Rightarrow> exn \<times> state" where
  "reject res n b s =
     (let error = \<lparr>statusCode = status res, notification = n, response = b\<rparr>;
          s1 = (if error_reason error = Errors_expiredProviderToken
                then s\<lparr>client := (client s)\<lparr>token := None\<rparr>\<rparr> else s)
      in case emit (error_reason error) error s1 of
           (Inl x, s2) \<Rightarrow> (x, s2)
         | (Inr _, s2) \<Rightarrow>
             (case emit Errors_error error s2 of
                (Inl x, s3) \<Rightarrow> (x, s3)
              | (Inr _, s3) \<Rightarrow> (ApnsErr error, s3)))"

definition handleServerResponse ::
  "platform \<Rightarrow> Response \<Rightarrow> Notification \<Rightarrow> state \<Rightarrow> (exn + Notification) \<times> state" where
  "handleServerResponse p res n s =
     (if status res = 200 then (Inr n, s)
      else
        (let (b, s1) = responseError p res s;
             (x, s2) = reject res n b s1
         in (Inl x, s2)))"

text \<open>\<^verbatim>\<open>send\<close> awaited alone: nothing else runs between its parts.\<close>

definition send :: "platform \<Rightarrow> Notification \<Rightarrow> state \<Rightarrow> (exn + Notification) \<times> state" where
  "send p n s =
     (case start p n s of
        (Inl e, s1) \<Rightarrow> (Inl e, s1)
      | (Inr (k, req), s1) \<Rightarrow>
          (case fetch p k req of
             Inl e \<Rightarrow> (Inl e, s1)
           | Inr res \<Rightarrow> handleServerResponse p res n s1))"

subsection \<open>Sending many\<close>

text \<open>
  \<^verbatim>\<open>sendMany\<close> calls \<^verbatim>\<open>send\<close> on every notification in turn, so each runs up to its
  \<^verbatim>\<open>await fetch(...)\<close> before the next one starts, and the calls resume later, one stretch
  at a time, in whatever order the transport answers. A call in flight is a task: it
  waits for \<^verbatim>\<open>fetch\<close>, or for \<^verbatim>\<open>res.json()\<close>, or with the body in hand for its
  continuation, or its promise has settled (\<open>Inl\<close> rejected, \<open>Inr\<close> fulfilled).
\<close>

datatype task =
  AwaitFetch Notification nat Request
  | AwaitJson Notification Response
  | AwaitBody Notification Response ApnsResponseError
  | Settled "exn + Notification"

definition begin_send :: "platform \<Rightarrow> Notification \<Rightarrow> state \<Rightarrow> task \<times> state" where
  "begin_send p n s =
     (case start p n s of
        (Inl e, s1) \<Rightarrow> (Settled (Inl e), s1)
      | (Inr (k, req), s1) \<Rightarrow> (AwaitFetch n k req, s1))"

fun launch :: "platform \<Rightarrow> Notification list \<Rightarrow> state \<Rightarrow> task list \<times> state" where
  "launch p [] s = ([], s)"
| "launch p (n # ns) s =
     (let (t, s1) = begin_send p n s;
          (ts, s2) = launch p ns s1
      in (t # ts, s2))"

text \<open>One stretch of a task, from the point where it waits to the next such point.\<close>

fun resume :: "platform \<Rightarrow> task \<Rightarrow> state \<Rightarrow> task \<times> state" where
  "resume p (AwaitFetch n k req) s =
     (case fetch p k req of
        Inl e \<Rightarrow> (Settled (Inl e), s)
      | Inr res \<Rightarrow> if status res = 200 then (Settled (Inr n), s) else (AwaitJson n res, s))"
| "resume p (AwaitJson n res) s =
     (let (b, s1) = responseError p res s in (AwaitBody n res b, s1))"
| "resume p (AwaitBody n res b) s =
     (let (x, s1) = reject res n b s in (Settled (Inl x), s1))"
| "resume p (Settled r) s = (Settled r, s)"

text \<open>
  A schedule names, stretch by stretch, the task that runs next; a name beyond the list,
  or of a settled task, runs nothing.
\<close>

definition advance :: "platform \<Rightarrow> nat \<Rightarrow> task list \<times> state \<Rightarrow> task list \<times> state" where
  "advance p i cfg =
     (case cfg of (ts, s) \<Rightarrow>
        if i < length ts then (let (t, s1) = resume p (ts ! i) s in (ts[i := t], s1))
        else (ts, s))"

definition run :: "platform \<Rightarrow> nat list \<Rightarrow> task list \<times> state \<Rightarrow> task list \<times> state" where
  "run p sched cfg = fold (advance p) sched cfg"

text \<open>
  Promises. \<^verbatim>\<open>.catch((error) => ({ error }))\<close> turns a rejection into a fulfilment;
  \<^verbatim>\<open>Promise.all\<close> rejects once one of its promises has rejected, is pending while one
  is, and is otherwise fulfilled with the values in the order of the promises.
\<close>

datatype 'a promise = Pending | Fulfilled 'a | Rejected exn

datatype outcome = Sent Notification | Failed exn

definition promise_of :: "task \<Rightarrow> Notification promise" where
  "promise_of t =
     (case t of Settled (Inl e) \<Rightarrow> Rejected e | Settled (Inr n) \<Rightarrow> Fulfilled n | _ \<Rightarrow> Pending)"

definition catch_error :: "Notification promise \<Rightarrow> outcome promise" where
  "catch_error pr =
     (case pr of Pending \<Rightarrow> Pending | Fulfilled n \<Rightarrow> Fulfilled (Sent n)
      | Rejected e \<Rightarrow> Fulfilled (Failed e))"

fun first_rejection :: "'a promise list \<Rightarrow> exn option" where
  "first_rejection [] = None"
| "first_rejection (Rejected e # ps) = Some e"
| "first_rejection (_ # ps) = first_rejection ps"

fun fulfilments :: "'a promise list \<Rightarrow> 'a list option" where
  "fulfilments [] = Some []"
| "fulfilments (Fulfilled v # ps) = map_option ((#) v) (fulfilments ps)"
| "fulfilments (_ # ps) = None"

definition Promise_all :: "'a promise list \<Rightarrow> 'a list promise" where
  "Promise_all ps =
     (case first_rejection ps of
        Some e \<Rightarrow> Rejected e
      | None \<Rightarrow> (case fulfilments ps of None \<Rightarrow> Pending | Some vs \<Rightarrow> Fulfilled vs))"

text \<open>The promise \<^verbatim>\<open>this.send(notification).catch((error) => ({ error }))\<close> of a task.\<close>

definition caught :: "task \<Rightarrow> outcome promise" where
  "caught t = catch_error (promise_of t)"

definition sendMany ::
  "platform \<Rightarrow> Notification list \<Rightarrow> nat list \<Rightarrow> state \<Rightarrow> outcome list promise \<times> state" where
  "sendMany p ns sched s =
     (let (ts, s1) = run p sched (launch p ns s)
      in (Promise_all (map caught ts), s1))"

text \<open>
  Whether the call behind a task ends with the notification delivered: decided when the
  transport answers, by the status alone.
\<close>

fun succeeds :: "platform \<Rightarrow> task \<Rightarrow> bool" where
  "succeeds p (AwaitFetch n k req) =
     (case fetch p k req of Inl e \<Rightarrow> False | Inr res \<Rightarrow> status res = 200)"
| "succeeds p (AwaitJson n res) = False"
| "succeeds p (AwaitBody n res b) = False"
| "succeeds p (Settled r) = (case r of Inl e \<Rightarrow> False | Inr n \<Rightarrow> True)"

text \<open>
  The notification a task was started for, and the number of stretches a task can
  still run.
\<close>

fun serves :: "Notification \<Rightarrow> task \<Rightarrow> bool" where
  "serves n (AwaitFetch m k req) = (m = n)"
| "serves n (AwaitJson m res) = (m = n)"
| "serves n (AwaitBody m res b) = (m = n)"
| "serves n (Settled r) = (case r of Inl e \<Rightarrow> True | Inr m \<Rightarrow> m = n)"

fun stretches :: "task \<Rightarrow> nat" where
  "stretches (AwaitFetch n k req) = 3"
| "stretches (AwaitJson n res) = 2"
| "stretches (AwaitBody n res b) = 1"
| "stretches (Settled r) = 0"

text \<open>The characters that a printed number consists of.\<close>

definition plain :: "char \<Rightarrow> bool" where
  "plain c = (c \<in> set ''0123456789.e+-'')"

text \<open>The number that a string of decimal digits denotes.\<close>

definition numeric_value :: "string \<Rightarrow> nat" where
  "numeric_value ds = foldl (\<lambda>a c. 10 * a + (of_char c - 48)) 0 ds"

subsection \<open>Sample inputs\<close>

text \<open>
  A platform whose clock advances one second per reading, whose signing primitive
  succeeds, and whose transport accepts the first request, answers the second with an
  expired provider token and the third with a body that does not parse; a client from
  its constructor; a notification.
\<close>

definition sample_platform :: platform where
  "sample_platform =
     \<lparr>Date_now_at = (\<lambda>k. 1700000000000 + 1000 * int k),
      createSigner = (\<lambda>so cl. Inr (''jwt.'' @ kid so @ ''.'' @ iss cl)),
      fetch = (\<lambda>k req.
         if k = 0 then Inr \<lparr>status = 200, res_json = Inl (SyntaxError ''Unexpected end'')\<rparr>
         else if k = 1 then
           Inr \<lparr>status = 403,
                res_json = Inr \<lparr>reason = ''ExpiredProviderToken'', timestamp = None\<rparr>\<rparr>
         else Inr \<lparr>status = 500, res_json = Inl (SyntaxError ''Unexpected token'')\<rparr>),
      JSON_stringify = (\<lambda>j. ''{}''),
      shortest_digits = (\<lambda>x. 1),
      Priority_immediate = 10\<rparr>"

definition sample_options :: ApnsOptions where
  "sample_options =
     \<lparr>opt_team = ''TEAM123456'',
      opt_signingKey = ''secret'',
      opt_keyId = ''KEY1234567'',
      opt_defaultTopic = Some ''com.example.app'',
      opt_host = None,
      opt_requestTimeout = Some 5000,
      opt_keepAlive = None\<rparr>"

definition sample_client :: ApnsClient where
  "sample_client = new_ApnsClient sample_options"

definition sample_notification :: Notification where
  "sample_notification =
     \<lparr>deviceToken = ''a1/b2'',
      pushType = ''alert'',
      priority = 5,
      options = \<lparr>topic = None, expiration = None, collapseId = None\<rparr>,
      buildApnsOptions = JObj [(''aps'', JObj [(''alert'', JStr ''hello'')])]\<rparr>"

definition sample_rejection :: Response where
  "sample_rejection =
     \<lparr>status = 410,
      res_json = Inr \<lparr>reason = ''Unregistered'', timestamp = Some 1700000000000\<rparr>\<rparr>"

definition sample_expired :: Response where
  "sample_expired =
     \<lparr>status = 403, res_json = Inr \<lparr>reason = ''ExpiredProviderToken'', timestamp = None\<rparr>\<rparr>"

definition sample_garbled :: Response where
  "sample_garbled = \<lparr>status = 502, res_json = Inl (SyntaxError ''Unexpected token'')\<rparr>"

definition sample_error :: ApnsError where
  "sample_error =
     \<lparr>statusCode = 410, notification = sample_notification,
      response = \<lparr>reason = ''Unregistered'', timestamp = Some 1700000000000\<rparr>\<rparr>"

definition sample_blank_topic :: Notification where
  "sample_blank_topic =
     sample_notification\<lparr>options := \<lparr>topic = Some [], expiration = None, collapseId = None\<rparr>\<rparr>"

definition sample_padded_topic :: Notification where
  "sample_padded_topic =
     sample_notification\<lparr>options :=
       \<lparr>topic = Some '' com.example.other '', expiration = None, collapseId = None\<rparr>\<rparr>"

text \<open>A notification whose collapse id has a line feed in it.\<close>

definition sample_broken :: Notification where
  "sample_broken =
     sample_notification\<lparr>options :=
       \<lparr>topic = None, expiration = None, collapseId = Some [CHR ''a'', CHR 0x0A, CHR ''b'']\<rparr>\<rparr>"

definition sample_seconds :: Notification where
  "sample_seconds =
     sample_notification\<lparr>options :=
       \<lparr>topic = None, expiration = Some (ExpNumber 1700003600), collapseId = None\<rparr>\<rparr>"

definition sample_instant :: Notification where
  "sample_instant =
     sample_notification\<lparr>options :=
       \<lparr>topic = None, expiration = Some (ExpDate 1700003600000), collapseId = None\<rparr>\<rparr>"

text \<open>A state in which a token minted one minute before the clock's first reading is cached.\<close>

definition sample_cached :: state where
  "sample_cached =
     initial (sample_client\<lparr>token := Some \<lparr>tok_value = ''old'', tok_timestamp = 1699999940000\<rparr>\<rparr>)"

text \<open>A state in which the cached token was minted 56 minutes before that reading.\<close>

definition sample_stale :: state where
  "sample_stale =
     initial (sample_client\<lparr>token := Some \<lparr>tok_value = ''old'', tok_timestamp = 1699996640000\<rparr>\<rparr>)"

text \<open>The state \<open>sample_cached\<close> with one listener registered on the generic channel.\<close>

definition sample_listening :: state where
  "sample_listening =
     sample_cached\<lparr>client := (client sample_cached)\<lparr>listenerCount :=
       (\<lambda>ev. if ev = ''error'' then 1 else 0)\<rparr>\<rparr>"

section \<open>Properties\<close>

subsection \<open>Acquiring the signing token\<close>

lemma cached_value_None:
  "token (client s) = None \<Longrightarrow> cached_value p s = (None, s)"
  by (simp add: cached_value_def)

lemma cached_value_Some:
  "token (client s) = Some t \<Longrightarrow>
   cached_value p s =
     (if Date_now_at p (ticks s) - tok_timestamp t < RESET_TOKEN_INTERVAL_MS
      then Some (tok_value t) else None, s\<lparr>ticks := Suc (ticks s)\<rparr>)"
  by (simp add: cached_value_def Date_now_def)

lemma getSigningToken_reuse:
  assumes "token (client s) = Some t"
    and "Date_now_at p (ticks s) - tok_timestamp t < RESET_TOKEN_INTERVAL_MS"
  shows "getSigningToken p s = (Inr (tok_value t), s\<lparr>ticks := Suc (ticks s)\<rparr>)"
  using assms by (simp add: getSigningToken_def cached_value_Some)

lemma getSigningToken_sign:
  assumes "cached_value p s = (None, s1)"
    and "createSigner p \<lparr>key = signingKey (client s1), algorithm = SIGNING_ALGORITHM, kid = keyId (client s1)\<rparr>
           \<lparr>iss = team (client s1), iat = Date_now_at p (ticks s1) div 1000\<rparr> = Inr tok"
  shows "getSigningToken p s =
     (Inr tok,
      s1\<lparr>ticks := Suc (Suc (ticks s1)),
         signed := signed s1 @ [(\<lparr>key = signingKey (client s1), algorithm = SIGNING_ALGORITHM, kid = keyId (client s1)\<rparr>,
                  \<lparr>iss = team (client s1), iat = Date_now_at p (ticks s1) div 1000\<rparr>)],
         client := (client s1)\<lparr>token := Some \<lparr>tok_value = tok, tok_timestamp = Date_now_at p (Suc (ticks s1))\<rparr>\<rparr>\<rparr>)"
  using assms by (simp add: getSigningToken_def Date_now_def)

lemma getSigningToken_throws:
  assumes "cached_value p s = (None, s1)"
    and "createSigner p \<lparr>key = signingKey (client s1), algorithm = SIGNING_ALGORITHM, kid = keyId (client s1)\<rparr>
           \<lparr>iss = team (client s1), iat = Date_now_at p (ticks s1) div 1000\<rparr> = Inl e"
  shows "getSigningToken p s =
     (Inl e,
      s1\<lparr>ticks := Suc (ticks s1),
         signed := signed s1 @ [(\<lparr>key = signingKey (client s1), algorithm = SIGNING_ALGORITHM, kid = keyId (client s1)\<rparr>,
                  \<lparr>iss = team (client s1), iat = Date_now_at p (ticks s1) div 1000\<rparr>)]\<rparr>)"
  using assms by (simp add: getSigningToken_def Date_now_def)

lemma stale_cached_value:
  assumes "token (client s) = None \<and> k = ticks s
     \<or> (\<exists>t. token (client s) = Some t \<and> k = Suc (ticks s)
           \<and> 55 * 60 * 1000 \<le> Date_now_at p (ticks s) - tok_timestamp t)"
  shows "cached_value p s = (None, s\<lparr>ticks := k\<rparr>)"
  using assms by (auto simp: cached_value_None cached_value_Some RESET_TOKEN_INTERVAL_MS_def)

text \<open>
  C1. Every call of \<^verbatim>\<open>_getSigningToken\<close> does one of two things. When a token is cached
  and the clock, read for the test, is less than 55 minutes past the token's timestamp,
  the cached value is returned and nothing but the clock has been touched: no signature
  is computed and the cache is as it was. Otherwise the signing primitive is called
  exactly once, with the team as \<^verbatim>\<open>iss\<close>, the clock's next reading in whole seconds as
  \<^verbatim>\<open>iat\<close>, the algorithm ES256 and the configured key and key id; the token it returns is
  cached with the clock's reading after that as its timestamp and is returned, and when
  the primitive throws instead, its exception is thrown and the cache is as it was.
\<close>

theorem signing_token_reused_or_signed_once:
  "(\<forall>t. token (client s) = Some t
        \<and> Date_now_at p (ticks s) - tok_timestamp t < 55 * 60 * 1000 \<longrightarrow>
      getSigningToken p s = (Inr (tok_value t), s\<lparr>ticks := Suc (ticks s)\<rparr>))
   \<and> (\<forall>k r.
        (token (client s) = None \<and> k = ticks s
         \<or> (\<exists>t. token (client s) = Some t \<and> k = Suc (ticks s)
               \<and> 55 * 60 * 1000 \<le> Date_now_at p (ticks s) - tok_timestamp t))
        \<and> r = createSigner p
                 \<lparr>key = signingKey (client s), algorithm = ''ES256'', kid = keyId (client s)\<rparr>
                 \<lparr>iss = team (client s), iat = Date_now_at p k div 1000\<rparr> \<longrightarrow>
        signed (snd (getSigningToken p s)) =
          signed s @ [(\<lparr>key = signingKey (client s), algorithm = ''ES256'', kid = keyId (client s)\<rparr>,
                       \<lparr>iss = team (client s), iat = Date_now_at p k div 1000\<rparr>)]
        \<and> (\<forall>tok. r = Inr tok \<longrightarrow>
              fst (getSigningToken p s) = Inr tok
              \<and> token (client (snd (getSigningToken p s))) =
                  Some \<lparr>tok_value = tok, tok_timestamp = Date_now_at p (Suc k)\<rparr>)
        \<and> (\<forall>e. r = Inl e \<longrightarrow>
              fst (getSigningToken p s) = Inl e
              \<and> token (client (snd (getSigningToken p s))) = token (client s)))"
proof (intro conjI allI impI)
  fix t
  assume "token (client s) = Some t \<and> Date_now_at p (ticks s) - tok_timestamp t < 55 * 60 * 1000"
  then show "getSigningToken p s = (Inr (tok_value t), s\<lparr>ticks := Suc (ticks s)\<rparr>)"
    by (simp add: getSigningToken_reuse RESET_TOKEN_INTERVAL_MS_def)
next
  fix k r
  assume a: "(token (client s) = None \<and> k = ticks s
         \<or> (\<exists>t. token (client s) = Some t \<and> k = Suc (ticks s)
               \<and> 55 * 60 * 1000 \<le> Date_now_at p (ticks s) - tok_timestamp t))
        \<and> r = createSigner p
                 \<lparr>key = signingKey (client s), algorithm = ''ES256'', kid = keyId (client s)\<rparr>
                 \<lparr>iss = team (client s), iat = Date_now_at p k div 1000\<rparr>"
  then have c: "cached_value p s = (None, s\<lparr>ticks := k\<rparr>)"
    by (intro stale_cached_value) blast
  show "signed (snd (getSigningToken p s)) =
          signed s @ [(\<lparr>key = signingKey (client s), algorithm = ''ES256'', kid = keyId (client s)\<rparr>,
                       \<lparr>iss = team (client s), iat = Date_now_at p k div 1000\<rparr>)]"
  proof (cases r)
    case (Inl e)
    with a show ?thesis
      using getSigningToken_throws [OF c, of e] by (simp add: SIGNING_ALGORITHM_def)
  next
    case (Inr tok)
    with a show ?thesis
      using getSigningToken_sign [OF c, of tok] by (simp add: SIGNING_ALGORITHM_def)
  qed
  {
    fix tok
    assume "r = Inr tok"
    with a have g: "getSigningToken p s = (Inr tok,
      s\<lparr>ticks := Suc (Suc k),
         signed := signed s @ [(\<lparr>key = signingKey (client s), algorithm = SIGNING_ALGORITHM, kid = keyId (client s)\<rparr>,
                  \<lparr>iss = team (client s), iat = Date_now_at p k div 1000\<rparr>)],
         client := (client s)\<lparr>token := Some \<lparr>tok_value = tok, tok_timestamp = Date_now_at p (Suc k)\<rparr>\<rparr>\<rparr>)"
      using getSigningToken_sign [OF c, of tok] by (simp add: SIGNING_ALGORITHM_def)
    show "fst (getSigningToken p s) = Inr tok" by (simp add: g)
    show "token (client (snd (getSigningToken p s))) =
                  Some \<lparr>tok_value = tok, tok_timestamp = Date_now_at p (Suc k)\<rparr>" by (simp add: g)
  }
  {
    fix e
    assume "r = Inl e"
    with a have g: "getSigningToken p s = (Inl e,
      s\<lparr>ticks := Suc k,
         signed := signed s @ [(\<lparr>key = signingKey (client s), algorithm = SIGNING_ALGORITHM, kid = keyId (client s)\<rparr>,
                  \<lparr>iss = team (client s), iat = Date_now_at p k div 1000\<rparr>)]\<rparr>)"
      using getSigningToken_throws [OF c, of e] by (simp add: SIGNING_ALGORITHM_def)
    show "fst (getSigningToken p s) = Inl e" by (simp add: g)
    show "token (client (snd (getSigningToken p s))) = token (client s)" by (simp add: g)
  }
qed

theorem signing_token_reused_or_signed_once_witness:
  "getSigningToken sample_platform sample_cached = (Inr ''old'', sample_cached\<lparr>ticks := 1\<rparr>)
   \<and> signed (snd (getSigningToken sample_platform sample_cached)) = []
   \<and> fst (getSigningToken sample_platform (initial sample_client))
       = Inr ''jwt.KEY1234567.TEAM123456''
   \<and> signed (snd (getSigningToken sample_platform (initial sample_client)))
       = [(\<lparr>key = ''secret'', algorithm = ''ES256'', kid = ''KEY1234567''\<rparr>,
           \<lparr>iss = ''TEAM123456'', iat = 1700000000\<rparr>)]
   \<and> token (client (snd (getSigningToken sample_platform (initial sample_client))))
       = Some \<lparr>tok_value = ''jwt.KEY1234567.TEAM123456'', tok_timestamp = 1700000001000\<rparr>
   \<and> fst (getSigningToken sample_platform sample_stale) = Inr ''jwt.KEY1234567.TEAM123456''
   \<and> signed (snd (getSigningToken sample_platform sample_stale))
       = [(\<lparr>key = ''secret'', algorithm = ''ES256'', kid = ''KEY1234567''\<rparr>,
           \<lparr>iss = ''TEAM123456'', iat = 1700000001\<rparr>)]
   \<and> token (client (snd (getSigningToken sample_platform sample_stale)))
       = Some \<lparr>tok_value = ''jwt.KEY1234567.TEAM123456'', tok_timestamp = 1700000002000\<rparr>"
  using signing_token_reused_or_signed_once [of sample_cached sample_platform]
    signing_token_reused_or_signed_once [of "initial sample_client" sample_platform]
    signing_token_reused_or_signed_once [of sample_stale sample_platform]
  by (simp add: sample_cached_def sample_stale_def sample_platform_def sample_client_def
      sample_options_def new_ApnsClient_def initial_def)

subsection \<open>Classifying responses\<close>

lemma emit_eq:
  "emit ev e s =
     (if ev = ''error'' \<and> listenerCount (client s) ''error'' = 0 then Inl (ApnsErr e)
      else Inr (0 < listenerCount (client s) ev),
      s\<lparr>emitted := emitted s @ [(ev, e)]\<rparr>)"
  by (simp add: emit_def Let_def)

lemma fst_reject:
  "fst (reject res n b s) = ApnsErr \<lparr>statusCode = status res, notification = n, response = b\<rparr>"
  by (simp add: reject_def emit_eq Let_def split: prod.splits sum.splits)

lemma client_reject:
  "client (snd (reject res n b s)) =
     (if reason b = Errors_expiredProviderToken then (client s)\<lparr>token := None\<rparr> else client s)"
  by (simp add: reject_def emit_eq Let_def error_reason_def)

lemma emitted_reject:
  "emitted (snd (reject res n b s)) =
     emitted s @
       (if reason b = ''error'' \<and> listenerCount (client s) ''error'' = 0
        then [(''error'', \<lparr>statusCode = status res, notification = n, response = b\<rparr>)]
        else [(reason b, \<lparr>statusCode = status res, notification = n, response = b\<rparr>),
              (''error'', \<lparr>statusCode = status res, notification = n, response = b\<rparr>)])"
  by (simp add: reject_def emit_eq Let_def error_reason_def Errors_error_def Errors_expiredProviderToken_def)

lemma untouched_reject:
  "ticks (snd (reject res n b s)) = ticks s"
  "signed (snd (reject res n b s)) = signed s"
  "fetched (snd (reject res n b s)) = fetched s"
  by (simp_all add: reject_def emit_eq Let_def)

lemma responseError_eq:
  "responseError p res s =
     (case res_json res of
        Inr b \<Rightarrow> (b, s)
      | Inl x \<Rightarrow> (\<lparr>reason = Errors_unknownError, timestamp = Some (Date_now_at p (ticks s))\<rparr>,
                 s\<lparr>ticks := Suc (ticks s)\<rparr>))"
  by (simp add: responseError_def Date_now_def split: sum.splits)

lemma client_responseError: "client (snd (responseError p res s)) = client s"
  by (simp add: responseError_eq split: sum.splits)

lemma handleServerResponse_200:
  "status res = 200 \<Longrightarrow> handleServerResponse p res n s = (Inr n, s)"
  by (simp add: handleServerResponse_def)

lemma handleServerResponse_fails:
  "status res \<noteq> 200 \<Longrightarrow>
   handleServerResponse p res n s =
     (Inl (ApnsErr \<lparr>statusCode = status res, notification = n,
                    response = fst (responseError p res s)\<rparr>),
      snd (reject res n (fst (responseError p res s)) (snd (responseError p res s))))"
  by (simp add: handleServerResponse_def case_prod_beta fst_reject)

lemma getSigningToken_signs_when_empty:
  "token (client s) = None \<Longrightarrow>
   signed (snd (getSigningToken p s)) =
     signed s @ [(\<lparr>key = signingKey (client s), algorithm = ''ES256'', kid = keyId (client s)\<rparr>,
                  \<lparr>iss = team (client s), iat = Date_now_at p (ticks s) div 1000\<rparr>)]"
  by (simp add: getSigningToken_def cached_value_None Date_now_def SIGNING_ALGORITHM_def
      Let_def split: sum.splits)

text \<open>
  C2. A response with a status other than 200 always ends in the client's error being
  thrown. When the reason of that error is the one of an expired provider token, the
  cached token is gone afterwards, and the next acquisition, whatever the clock reads
  then, calls the signing primitive; for every other reason the client is exactly as it
  was, its cached token included.
\<close>

theorem expired_reason_clears_token:
  "status res \<noteq> 200 \<longrightarrow>
     (\<exists>e. fst (handleServerResponse p res n s) = Inl (ApnsErr e)
        \<and> (error_reason e = Errors_expiredProviderToken \<longrightarrow>
              token (client (snd (handleServerResponse p res n s))) = None
              \<and> (\<forall>q. signed (snd (getSigningToken q (snd (handleServerResponse p res n s)))) =
                     signed (snd (handleServerResponse p res n s))
                       @ [(\<lparr>key = signingKey (client s), algorithm = ''ES256'', kid = keyId (client s)\<rparr>,
                           \<lparr>iss = team (client s),
                             iat = Date_now_at q (ticks (snd (handleServerResponse p res n s))) div 1000\<rparr>)]))
        \<and> (error_reason e \<noteq> Errors_expiredProviderToken \<longrightarrow>
              client (snd (handleServerResponse p res n s)) = client s))"
proof
  assume st: "status res \<noteq> 200"
  define b where "b = fst (responseError p res s)"
  define s1 where "s1 = snd (responseError p res s)"
  define e where "e = \<lparr>statusCode = status res, notification = n, response = b\<rparr>"
  define s' where "s' = snd (handleServerResponse p res n s)"
  have h: "handleServerResponse p res n s = (Inl (ApnsErr e), snd (reject res n b s1))"
    using st by (simp add: handleServerResponse_fails b_def s1_def e_def)
  have r: "error_reason e = reason b"
    by (simp add: e_def error_reason_def)
  have c1: "client s1 = client s"
    by (simp add: s1_def client_responseError)
  have c: "client s' =
      (if reason b = Errors_expiredProviderToken then (client s)\<lparr>token := None\<rparr> else client s)"
    by (simp add: s'_def h client_reject c1)
  have expired: "token (client s') = None
      \<and> (\<forall>q. signed (snd (getSigningToken q s')) =
             signed s' @ [(\<lparr>key = signingKey (client s), algorithm = ''ES256'', kid = keyId (client s)\<rparr>,
                           \<lparr>iss = team (client s), iat = Date_now_at q (ticks s') div 1000\<rparr>)])"
    if x: "error_reason e = Errors_expiredProviderToken"
  proof -
    from x r c have cs: "client s' = (client s)\<lparr>token := None\<rparr>" by simp
    then have t: "token (client s') = None" by simp
    show ?thesis
      using getSigningToken_signs_when_empty [OF t] t by (simp add: cs)
  qed
  have other: "client s' = client s" if "error_reason e \<noteq> Errors_expiredProviderToken"
    using that r c by simp
  show "\<exists>e. fst (handleServerResponse p res n s) = Inl (ApnsErr e)
        \<and> (error_reason e = Errors_expiredProviderToken \<longrightarrow>
              token (client (snd (handleServerResponse p res n s))) = None
              \<and> (\<forall>q. signed (snd (getSigningToken q (snd (handleServerResponse p res n s)))) =
                     signed (snd (handleServerResponse p res n s))
                       @ [(\<lparr>key = signingKey (client s), algorithm = ''ES256'', kid = keyId (client s)\<rparr>,
                           \<lparr>iss = team (client s),
                             iat = Date_now_at q (ticks (snd (handleServerResponse p res n s))) div 1000\<rparr>)]))
        \<and> (error_reason e \<noteq> Errors_expiredProviderToken \<longrightarrow>
              client (snd (handleServerResponse p res n s)) = client s)"
    using expired other h unfolding s'_def by (intro exI [of _ e]) simp
qed


theorem expired_reason_clears_token_witness:
  "fst (handleServerResponse sample_platform sample_expired sample_notification sample_cached)
     = Inl (ApnsErr \<lparr>statusCode = 403, notification = sample_notification,
                       response = \<lparr>reason = ''ExpiredProviderToken'', timestamp = None\<rparr>\<rparr>)
   \<and> token (client (snd (handleServerResponse sample_platform sample_expired
                            sample_notification sample_cached))) = None
   \<and> signed (snd (getSigningToken sample_platform
         (snd (handleServerResponse sample_platform sample_expired sample_notification sample_cached))))
       = [(\<lparr>key = ''secret'', algorithm = ''ES256'', kid = ''KEY1234567''\<rparr>,
           \<lparr>iss = ''TEAM123456'', iat = 1700000000\<rparr>)]
   \<and> client (snd (handleServerResponse sample_platform sample_rejection
                     sample_notification sample_cached)) = client sample_cached"
  using expired_reason_clears_token
          [of sample_expired sample_platform sample_notification sample_cached]
    expired_reason_clears_token
          [of sample_rejection sample_platform sample_notification sample_cached]
  by (simp add: handleServerResponse_fails responseError_eq client_reject error_reason_def
      sample_expired_def sample_rejection_def sample_cached_def sample_platform_def
      sample_client_def sample_options_def new_ApnsClient_def initial_def
      Errors_expiredProviderToken_def untouched_reject)

text \<open>
  C3. A response with status 200 gives back the notification it was called with and
  changes nothing. A response with another status whose body parses as
  \<^verbatim>\<open>{ reason, timestamp }\<close> ends in the client's error, which carries that status code,
  that reason and timestamp, and the notification.
\<close>

theorem classification_of_200_and_of_rejection:
  "(status res = 200 \<longrightarrow> handleServerResponse p res n s = (Inr n, s))
   \<and> (\<forall>b. status res \<noteq> 200 \<and> res_json res = Inr b \<longrightarrow>
         (\<exists>e. fst (handleServerResponse p res n s) = Inl (ApnsErr e)
            \<and> statusCode e = status res
            \<and> error_reason e = reason b
            \<and> error_timestamp e = timestamp b
            \<and> notification e = n))"
  by (simp add: handleServerResponse_200 handleServerResponse_fails responseError_eq
      error_reason_def error_timestamp_def)

theorem classification_of_200_and_of_rejection_witness:
  "handleServerResponse sample_platform \<lparr>status = 200, res_json = Inl (SyntaxError [])\<rparr>
       sample_notification sample_cached = (Inr sample_notification, sample_cached)
   \<and> fst (handleServerResponse sample_platform sample_rejection sample_notification sample_cached)
       = Inl (ApnsErr sample_error)"
  using classification_of_200_and_of_rejection
          [of "\<lparr>status = 200, res_json = Inl (SyntaxError [])\<rparr>" sample_platform
              sample_notification sample_cached]
    classification_of_200_and_of_rejection
          [of sample_rejection sample_platform sample_notification sample_cached]
  by (auto simp add: sample_rejection_def sample_error_def error_reason_def error_timestamp_def)

text \<open>
  C5. When the status is not 200 and \<^verbatim>\<open>res.json()\<close> rejects, that rejection goes no
  further: the error thrown is the client's own, built from the actual status code and
  from a body whose reason is \<^verbatim>\<open>Errors.unknownError\<close> and whose timestamp is the clock's
  reading at that moment.
\<close>

theorem unparseable_body_is_unknown_error:
  "status res \<noteq> 200 \<and> res_json res = Inl x \<longrightarrow>
     fst (handleServerResponse p res n s) =
       Inl (ApnsErr \<lparr>statusCode = status res, notification = n,
                      response = \<lparr>reason = Errors_unknownError,
                                   timestamp = Some (Date_now_at p (ticks s))\<rparr>\<rparr>)"
  by (simp add: handleServerResponse_fails responseError_eq)

theorem unparseable_body_is_unknown_error_witness:
  "fst (handleServerResponse sample_platform sample_garbled sample_notification sample_cached) =
     Inl (ApnsErr \<lparr>statusCode = 502, notification = sample_notification,
                    response = \<lparr>reason = Errors_unknownError, timestamp = Some 1700000000000\<rparr>\<rparr>)"
  using unparseable_body_is_unknown_error
          [of sample_garbled "SyntaxError ''Unexpected token''" sample_platform
              sample_notification sample_cached]
  by (simp add: sample_garbled_def sample_platform_def sample_cached_def initial_def)

text \<open>
  A rejection on a client without listeners: the emission on the generic channel throws.
  This is what C9's last part rules out.
\<close>

theorem emission_on_error_channel_throws:
  "listenerCount (client sample_cached) (error_reason sample_error) = 0
   \<and> listenerCount (client sample_cached) Errors_error = 0
   \<and> fst (emit Errors_error sample_error sample_cached) = Inl (ApnsErr sample_error)"
  by (simp add: emit_eq Errors_error_def sample_cached_def sample_client_def new_ApnsClient_def
      initial_def)

text \<open>
  C9, as the code has it. A response with a status other than 200 always ends in the
  client's error being thrown to the caller, after it was emitted on the channel named by
  its reason and then on the generic \<^verbatim>\<open>"error"\<close> channel. An emission on any other channel
  returns whether or not a listener is registered there, and so does one on the generic
  channel with a listener; on the generic channel without a listener the emitter throws
  the error it was given, which is the error the caller was about to get. Only when the
  reason itself is \<^verbatim>\<open>"error"\<close> and nobody listens there does the first emission already
  throw, and the error has been emitted once.
\<close>

theorem error_emitted_then_thrown:
  "status res \<noteq> 200 \<longrightarrow>
     (\<exists>e. fst (handleServerResponse p res n s) = Inl (ApnsErr e)
        \<and> emitted (snd (handleServerResponse p res n s)) =
            emitted s @
              (if error_reason e = ''error'' \<and> listenerCount (client s) ''error'' = 0
               then [(''error'', e)]
               else [(error_reason e, e), (Errors_error, e)])
        \<and> (\<forall>ev t. (ev \<noteq> ''error'' \<or> 0 < listenerCount (client t) ''error'') \<longrightarrow>
               fst (emit ev e t) = Inr (0 < listenerCount (client t) ev))
        \<and> (\<forall>t. listenerCount (client t) ''error'' = 0 \<longrightarrow>
               fst (emit Errors_error e t) = Inl (ApnsErr e)))"
proof
  assume st: "status res \<noteq> 200"
  define b where "b = fst (responseError p res s)"
  define s1 where "s1 = snd (responseError p res s)"
  define e where "e = \<lparr>statusCode = status res, notification = n, response = b\<rparr>"
  have h: "handleServerResponse p res n s = (Inl (ApnsErr e), snd (reject res n b s1))"
    using st by (simp add: handleServerResponse_fails b_def s1_def e_def)
  have r: "error_reason e = reason b"
    by (simp add: e_def error_reason_def)
  have s1: "emitted s1 = emitted s" "client s1 = client s"
    by (simp_all add: s1_def responseError_eq split: sum.splits)
  have em: "emitted (snd (handleServerResponse p res n s)) =
      emitted s @
        (if error_reason e = ''error'' \<and> listenerCount (client s) ''error'' = 0
         then [(''error'', e)]
         else [(error_reason e, e), (Errors_error, e)])"
    by (simp add: h emitted_reject s1 e_def error_reason_def Errors_error_def)
  have "fst (handleServerResponse p res n s) = Inl (ApnsErr e)"
    by (simp add: h)
  moreover have "\<forall>ev t. (ev \<noteq> ''error'' \<or> 0 < listenerCount (client t) ''error'') \<longrightarrow>
      fst (emit ev e t) = Inr (0 < listenerCount (client t) ev)"
    by (auto simp: emit_eq)
  moreover have "\<forall>t. listenerCount (client t) ''error'' = 0 \<longrightarrow>
      fst (emit Errors_error e t) = Inl (ApnsErr e)"
    by (simp add: emit_eq Errors_error_def)
  ultimately show "\<exists>e. fst (handleServerResponse p res n s) = Inl (ApnsErr e)
        \<and> emitted (snd (handleServerResponse p res n s)) =
            emitted s @
              (if error_reason e = ''error'' \<and> listenerCount (client s) ''error'' = 0
               then [(''error'', e)]
               else [(error_reason e, e), (Errors_error, e)])
        \<and> (\<forall>ev t. (ev \<noteq> ''error'' \<or> 0 < listenerCount (client t) ''error'') \<longrightarrow>
               fst (emit ev e t) = Inr (0 < listenerCount (client t) ev))
        \<and> (\<forall>t. listenerCount (client t) ''error'' = 0 \<longrightarrow>
               fst (emit Errors_error e t) = Inl (ApnsErr e))"
    using em by blast
qed

theorem error_emitted_then_thrown_witness:
  "fst (handleServerResponse sample_platform sample_rejection sample_notification sample_listening)
     = Inl (ApnsErr sample_error)
   \<and> emitted (snd (handleServerResponse sample_platform sample_rejection sample_notification
                     sample_listening))
     = [(''Unregistered'', sample_error), (''error'', sample_error)]
   \<and> fst (emit ''Unregistered'' sample_error sample_listening) = Inr False
   \<and> fst (emit ''error'' sample_error sample_listening) = Inr True
   \<and> fst (handleServerResponse sample_platform sample_rejection sample_notification sample_cached)
     = Inl (ApnsErr sample_error)
   \<and> fst (emit ''Unregistered'' sample_error sample_cached) = Inr False
   \<and> fst (emit ''error'' sample_error sample_cached) = Inl (ApnsErr sample_error)"
  using error_emitted_then_thrown
          [of sample_rejection sample_platform sample_notification sample_listening]
    error_emitted_then_thrown
          [of sample_rejection sample_platform sample_notification sample_cached]
  by (simp add: handleServerResponse_fails responseError_eq emitted_reject emit_eq
      sample_rejection_def sample_error_def sample_listening_def sample_cached_def
      sample_client_def new_ApnsClient_def initial_def Errors_error_def error_reason_def)

subsection \<open>Printing numbers\<close>

lemma decimal_digit: "n < 10 \<Longrightarrow> decimal n = [digit n]"
  by (subst decimal.simps) simp

lemma decimal_more: "10 \<le> n \<Longrightarrow> decimal n = decimal (n div 10) @ [digit (n mod 10)]"
  by (subst decimal.simps) simp

lemma value_digit: "d < 10 \<Longrightarrow> of_char (digit d) - 48 = d"
proof -
  assume "d < 10"
  then consider "d = 0" | "d = 1" | "d = 2" | "d = 3" | "d = 4" | "d = 5" | "d = 6" | "d = 7"
    | "d = 8" | "d = 9"
    by atomize_elim arith
  then show ?thesis
    by cases (simp_all add: digit_def)
qed

lemma numeric_value_decimal: "numeric_value (decimal n) = n"
proof (induction n rule: decimal.induct)
  case (1 n)
  show ?case
  proof (cases "n < 10")
    case True
    then show ?thesis
      by (subst decimal.simps) (simp add: numeric_value_def value_digit)
  next
    case False
    then have "numeric_value (decimal (n div 10)) = n div 10"
      using "1.IH" by simp
    then have "numeric_value (decimal (n div 10) @ [digit (n mod 10)]) = 10 * (n div 10) + n mod 10"
      by (simp add: numeric_value_def value_digit)
    with False show ?thesis
      by (subst decimal.simps) simp
  qed
qed

lemma floor_half: "\<lfloor>rat_of_int i + 1 / 2\<rfloor> = i"
  by (simp add: floor_unique)

lemma toFixed0_whole:
  assumes "0 \<le> i" and "i < 10 ^ 21"
  shows "toFixed0 p (rat_of_int i) = decimal (nat i)"
proof -
  have "\<not> (10 :: rat) ^ 21 \<le> rat_of_int i"
  proof
    assume "(10 :: rat) ^ 21 \<le> rat_of_int i"
    then have "rat_of_int (10 ^ 21) \<le> rat_of_int i" by simp
    then have "(10 :: int) ^ 21 \<le> i" by (simp only: of_int_le_iff)
    with assms show False by simp
  qed
  with assms show ?thesis
    by (simp add: toFixed0_def Let_def floor_half)
qed

lemma decimal_5: "decimal 5 = ''5''"
  by (simp add: decimal_digit digit_def)

lemma decimal_1700003600: "decimal 1700003600 = ''1700003600''"
  by (simp add: decimal_digit decimal_more digit_def)

lemma plain_digit: "d < 10 \<Longrightarrow> plain (digit d)"
proof -
  assume "d < 10"
  then consider "d = 0" | "d = 1" | "d = 2" | "d = 3" | "d = 4" | "d = 5" | "d = 6" | "d = 7"
    | "d = 8" | "d = 9"
    by atomize_elim arith
  then show ?thesis
    by cases (simp_all add: digit_def plain_def)
qed

lemma plain_decimal: "list_all plain (decimal n)"
proof (induction n rule: decimal.induct)
  case (1 n)
  show ?case
  proof (cases "n < 10")
    case True
    then show ?thesis
      by (simp add: decimal_digit plain_digit)
  next
    case False
    then have "list_all plain (decimal (n div 10))"
      using "1.IH" by simp
    with False show ?thesis
      by (simp add: decimal_more plain_digit)
  qed
qed

lemma plain_exponent_notation: "list_all plain (exponent_notation p y)"
proof (cases "decimal (shortest_digits p y)")
  case Nil
  then show ?thesis by (simp add: exponent_notation_def)
next
  case (Cons d ds)
  have "list_all plain (d # ds)"
    using plain_decimal [of "shortest_digits p y"] Cons by simp
  then show ?thesis
    using plain_decimal [of "length (decimal (nat \<lfloor>y\<rfloor>)) - 1"]
    by (simp add: exponent_notation_def Cons plain_def)
qed

lemma plain_toString: "list_all plain (toString p i)"
  by (simp add: toString_def plain_exponent_notation plain_decimal) (simp add: plain_def)

lemma plain_toFixed0: "list_all plain (toFixed0 p x)"
  by (simp add: toFixed0_def Let_def plain_exponent_notation plain_decimal) (simp add: plain_def)

lemma point_free_decimal: "CHR ''.'' \<notin> set (decimal n)"
proof (induction n rule: decimal.induct)
  case (1 n)
  have d: "CHR ''.'' \<noteq> digit k" if "k < 10" for k
  proof -
    from that consider "k = 0" | "k = 1" | "k = 2" | "k = 3" | "k = 4" | "k = 5" | "k = 6"
      | "k = 7" | "k = 8" | "k = 9"
      by atomize_elim arith
    then show ?thesis
      by cases (simp_all add: digit_def)
  qed
  show ?case
  proof (cases "n < 10")
    case True
    then show ?thesis
      by (simp add: decimal_digit d)
  next
    case False
    then have "CHR ''.'' \<notin> set (decimal (n div 10))"
      using "1.IH" by simp
    with False show ?thesis
      by (simp add: decimal_more d)
  qed
qed

lemma point_free_toFixed0: "\<bar>x\<bar> < 10 ^ 21 \<Longrightarrow> CHR ''.'' \<notin> set (toFixed0 p x)"
  by (simp add: toFixed0_def Let_def point_free_decimal)

subsection \<open>Header values\<close>

lemma plain_not_whitespace: "plain c \<Longrightarrow> \<not> http_whitespace c"
  by (auto simp: plain_def http_whitespace_def)

lemma plain_header_char:
  "plain c \<Longrightarrow> of_char c < (0xC4 :: nat) \<and> c \<noteq> CHR 0x00 \<and> c \<noteq> CHR 0x0A \<and> c \<noteq> CHR 0x0D"
  by (auto simp: plain_def)

lemma dropWhile_none: "list_all (\<lambda>c. \<not> P c) v \<Longrightarrow> dropWhile P v = v"
  by (cases v) simp_all

lemma normalize_plain: "list_all plain v \<Longrightarrow> normalize v = v"
proof -
  assume a: "list_all plain v"
  then have n: "list_all (\<lambda>c. \<not> http_whitespace c) v"
    by (simp add: list_all_iff plain_not_whitespace)
  then have "list_all (\<lambda>c. \<not> http_whitespace c) (rev v)"
    by (simp add: list_all_iff)
  with n show ?thesis
    by (simp add: normalize_def dropWhile_none)
qed

lemma header_value_plain: "list_all plain v \<Longrightarrow> header_value v"
  by (simp add: header_value_def normalize_plain list_all_iff plain_header_char)

lemma Headers_set_plain: "list_all plain v \<Longrightarrow> Headers_set h k v = Inr (h(k \<mapsto> v))"
  by (simp add: Headers_set_def header_value_plain normalize_plain)

lemma Headers_set_Inr:
  "Headers_set h k v = Inr h' \<Longrightarrow> h' = h(k \<mapsto> normalize v)"
  by (simp add: Headers_set_def split: if_splits)

lemma and_then_Inr: "and_then r f = Inr y \<longleftrightarrow> (\<exists>v. r = Inr v \<and> f v = Inr y)"
  by (cases r) (simp_all add: and_then_def)

subsection \<open>The request that is sent\<close>

lemma build_headers_steps:
  assumes "build_headers p c tok n = Inr h"
  obtains h1 h2 h3 h4 h5 where
    "h1 = Map.empty(''authorization'' \<mapsto> normalize (''bearer '' @ tok))"
    "h2 = h1(''apns-push-type'' \<mapsto> normalize (pushType n))"
    "h3 = (case (case topic (options n) of None \<Rightarrow> defaultTopic c | Some t \<Rightarrow> Some t) of
             None \<Rightarrow> h2
           | Some t \<Rightarrow> if t = [] then h2 else h2(''apns-topic'' \<mapsto> normalize t))"
    "h4 = (if priority n \<noteq> Priority_immediate p
           then h3(''apns-priority'' \<mapsto> normalize (toString p (priority n))) else h3)"
    "h5 = (case expiration (options n) of
             None \<Rightarrow> h4
           | Some (ExpNumber x) \<Rightarrow> h4(''apns-expiration'' \<mapsto> normalize (toFixed0 p x))
           | Some (ExpDate ms) \<Rightarrow>
               h4(''apns-expiration'' \<mapsto> normalize (toFixed0 p (of_int ms / 1000))))"
    "h = (case collapseId (options n) of
            None \<Rightarrow> h5
          | Some i \<Rightarrow> if i = [] then h5 else h5(''apns-collapse-id'' \<mapsto> normalize i))"
proof -
  from assms obtain h1 h2 h3 h4 h5 where
    s1: "Headers_set Map.empty ''authorization'' (''bearer '' @ tok) = Inr h1"
    and s2: "Headers_set h1 ''apns-push-type'' (pushType n) = Inr h2"
    and s3: "(case (case topic (options n) of None \<Rightarrow> defaultTopic c | Some t \<Rightarrow> Some t) of
          None \<Rightarrow> Inr h2
        | Some t \<Rightarrow> if t = [] then Inr h2 else Headers_set h2 ''apns-topic'' t) = Inr h3"
    and s4: "(if priority n \<noteq> Priority_immediate p
        then Headers_set h3 ''apns-priority'' (toString p (priority n)) else Inr h3) = Inr h4"
    and s5: "(case expiration (options n) of
          None \<Rightarrow> Inr h4
        | Some (ExpNumber x) \<Rightarrow> Headers_set h4 ''apns-expiration'' (toFixed0 p x)
        | Some (ExpDate ms) \<Rightarrow> Headers_set h4 ''apns-expiration'' (toFixed0 p (of_int ms / 1000)))
       = Inr h5"
    and s6: "(case collapseId (options n) of
       None \<Rightarrow> Inr h5
     | Some i \<Rightarrow> if i = [] then Inr h5 else Headers_set h5 ''apns-collapse-id'' i) = Inr h"
    unfolding build_headers_def and_then_Inr by blast
  have "h1 = Map.empty(''authorization'' \<mapsto> normalize (''bearer '' @ tok))"
    using s1 by (rule Headers_set_Inr)
  moreover have "h2 = h1(''apns-push-type'' \<mapsto> normalize (pushType n))"
    using s2 by (rule Headers_set_Inr)
  moreover have "h3 = (case (case topic (options n) of None \<Rightarrow> defaultTopic c | Some t \<Rightarrow> Some t) of
             None \<Rightarrow> h2
           | Some t \<Rightarrow> if t = [] then h2 else h2(''apns-topic'' \<mapsto> normalize t))"
    using s3 by (auto split: option.splits if_splits dest: Headers_set_Inr)
  moreover have "h4 = (if priority n \<noteq> Priority_immediate p
           then h3(''apns-priority'' \<mapsto> normalize (toString p (priority n))) else h3)"
    using s4 by (auto split: if_splits dest: Headers_set_Inr)
  moreover have "h5 = (case expiration (options n) of
             None \<Rightarrow> h4
           | Some (ExpNumber x) \<Rightarrow> h4(''apns-expiration'' \<mapsto> normalize (toFixed0 p x))
           | Some (ExpDate ms) \<Rightarrow>
               h4(''apns-expiration'' \<mapsto> normalize (toFixed0 p (of_int ms / 1000))))"
    using s5 by (auto split: option.splits Expiration.splits dest: Headers_set_Inr)
  moreover have "h = (case collapseId (options n) of
            None \<Rightarrow> h5
          | Some i \<Rightarrow> if i = [] then h5 else h5(''apns-collapse-id'' \<mapsto> normalize i))"
    using s6 by (auto split: option.splits if_splits dest: Headers_set_Inr)
  ultimately show thesis
    by (rule that)
qed

lemma priority_header:
  assumes "build_headers p c tok n = Inr h"
  shows "h ''apns-priority'' =
     (if priority n = Priority_immediate p then None else Some (toString p (priority n)))"
proof -
  from assms obtain h1 h2 h3 h4 h5 where
    "h1 = Map.empty(''authorization'' \<mapsto> normalize (''bearer '' @ tok))"
    "h2 = h1(''apns-push-type'' \<mapsto> normalize (pushType n))"
    "h3 = (case (case topic (options n) of None \<Rightarrow> defaultTopic c | Some t \<Rightarrow> Some t) of
             None \<Rightarrow> h2
           | Some t \<Rightarrow> if t = [] then h2 else h2(''apns-topic'' \<mapsto> normalize t))"
    "h4 = (if priority n \<noteq> Priority_immediate p
           then h3(''apns-priority'' \<mapsto> normalize (toString p (priority n))) else h3)"
    "h5 = (case expiration (options n) of
             None \<Rightarrow> h4
           | Some (ExpNumber x) \<Rightarrow> h4(''apns-expiration'' \<mapsto> normalize (toFixed0 p x))
           | Some (ExpDate ms) \<Rightarrow>
               h4(''apns-expiration'' \<mapsto> normalize (toFixed0 p (of_int ms / 1000))))"
    "h = (case collapseId (options n) of
            None \<Rightarrow> h5
          | Some i \<Rightarrow> if i = [] then h5 else h5(''apns-collapse-id'' \<mapsto> normalize i))"
    by (rule build_headers_steps)
  then show ?thesis
    by (cases "topic (options n)"; cases "defaultTopic c"; cases "expiration (options n)";
        cases "collapseId (options n)")
      (simp_all add: normalize_plain plain_toString split: Expiration.splits)
qed

lemma topic_header:
  assumes "build_headers p c tok n = Inr h"
  shows "h ''apns-topic'' =
     (case topic (options n) of
        Some t \<Rightarrow> if t = [] then None else Some (normalize t)
      | None \<Rightarrow> (case defaultTopic c of
                   Some d \<Rightarrow> if d = [] then None else Some (normalize d)
                 | None \<Rightarrow> None))"
proof -
  from assms obtain h1 h2 h3 h4 h5 where
    "h1 = Map.empty(''authorization'' \<mapsto> normalize (''bearer '' @ tok))"
    "h2 = h1(''apns-push-type'' \<mapsto> normalize (pushType n))"
    "h3 = (case (case topic (options n) of None \<Rightarrow> defaultTopic c | Some t \<Rightarrow> Some t) of
             None \<Rightarrow> h2
           | Some t \<Rightarrow> if t = [] then h2 else h2(''apns-topic'' \<mapsto> normalize t))"
    "h4 = (if priority n \<noteq> Priority_immediate p
           then h3(''apns-priority'' \<mapsto> normalize (toString p (priority n))) else h3)"
    "h5 = (case expiration (options n) of
             None \<Rightarrow> h4
           | Some (ExpNumber x) \<Rightarrow> h4(''apns-expiration'' \<mapsto> normalize (toFixed0 p x))
           | Some (ExpDate ms) \<Rightarrow>
               h4(''apns-expiration'' \<mapsto> normalize (toFixed0 p (of_int ms / 1000))))"
    "h = (case collapseId (options n) of
            None \<Rightarrow> h5
          | Some i \<Rightarrow> if i = [] then h5 else h5(''apns-collapse-id'' \<mapsto> normalize i))"
    by (rule build_headers_steps)
  then show ?thesis
    by (cases "topic (options n)"; cases "defaultTopic c"; cases "expiration (options n)";
        cases "collapseId (options n)")
      (simp_all split: Expiration.splits)
qed

lemma expiration_header:
  assumes "build_headers p c tok n = Inr h"
  shows "h ''apns-expiration'' =
     (case expiration (options n) of
        None \<Rightarrow> None
      | Some (ExpNumber x) \<Rightarrow> Some (toFixed0 p x)
      | Some (ExpDate ms) \<Rightarrow> Some (toFixed0 p (of_int ms / 1000)))"
proof -
  from assms obtain h1 h2 h3 h4 h5 where
    "h1 = Map.empty(''authorization'' \<mapsto> normalize (''bearer '' @ tok))"
    "h2 = h1(''apns-push-type'' \<mapsto> normalize (pushType n))"
    "h3 = (case (case topic (options n) of None \<Rightarrow> defaultTopic c | Some t \<Rightarrow> Some t) of
             None \<Rightarrow> h2
           | Some t \<Rightarrow> if t = [] then h2 else h2(''apns-topic'' \<mapsto> normalize t))"
    "h4 = (if priority n \<noteq> Priority_immediate p
           then h3(''apns-priority'' \<mapsto> normalize (toString p (priority n))) else h3)"
    "h5 = (case expiration (options n) of
             None \<Rightarrow> h4
           | Some (ExpNumber x) \<Rightarrow> h4(''apns-expiration'' \<mapsto> normalize (toFixed0 p x))
           | Some (ExpDate ms) \<Rightarrow>
               h4(''apns-expiration'' \<mapsto> normalize (toFixed0 p (of_int ms / 1000))))"
    "h = (case collapseId (options n) of
            None \<Rightarrow> h5
          | Some i \<Rightarrow> if i = [] then h5 else h5(''apns-collapse-id'' \<mapsto> normalize i))"
    by (rule build_headers_steps)
  then show ?thesis
    by (cases "topic (options n)"; cases "defaultTopic c"; cases "expiration (options n)";
        cases "collapseId (options n)")
      (simp_all add: normalize_plain plain_toFixed0 split: Expiration.splits)
qed

lemma build_headers_ignores_token:
  "build_headers p (c\<lparr>token := t\<rparr>) tok n = build_headers p c tok n"
  by (cases "topic (options n)") (simp_all add: build_headers_def)

lemma build_request_ignores_token:
  "build_request p (c\<lparr>token := t\<rparr>) tok n = build_request p c tok n"
  by (simp add: build_request_def build_url_def build_headers_ignores_token)

lemma getSigningToken_frame:
  "fetched (snd (getSigningToken p s)) = fetched s"
  "emitted (snd (getSigningToken p s)) = emitted s"
  "\<exists>t. client (snd (getSigningToken p s)) = (client s)\<lparr>token := t\<rparr>"
proof -
  show "fetched (snd (getSigningToken p s)) = fetched s"
    by (simp add: getSigningToken_def cached_value_def Date_now_def Let_def
        split: option.splits sum.splits)
  show "emitted (snd (getSigningToken p s)) = emitted s"
    by (simp add: getSigningToken_def cached_value_def Date_now_def Let_def
        split: option.splits sum.splits)
  have "client (snd (getSigningToken p s)) =
      (client s)\<lparr>token := token (client (snd (getSigningToken p s)))\<rparr>"
    by (simp add: getSigningToken_def cached_value_def Date_now_def Let_def
        split: option.splits sum.splits)
  then show "\<exists>t. client (snd (getSigningToken p s)) = (client s)\<lparr>token := t\<rparr>" ..
qed

lemma start_eq:
  "start p n s =
     (case fst (getSigningToken p s) of
        Inl e \<Rightarrow> (Inl e, snd (getSigningToken p s))
      | Inr tok \<Rightarrow>
          (case build_request p (client s) tok n of
             Inl e \<Rightarrow> (Inl e, snd (getSigningToken p s))
           | Inr req \<Rightarrow>
               (Inr (length (fetched s), req),
                (snd (getSigningToken p s))\<lparr>fetched := fetched s @ [req]\<rparr>)))"
proof -
  obtain r s1 where g: "getSigningToken p s = (r, s1)"
    by (cases "getSigningToken p s")
  obtain t where "client s1 = (client s)\<lparr>token := t\<rparr>"
    using getSigningToken_frame(3) [of p s] g by auto
  moreover have "fetched s1 = fetched s"
    using getSigningToken_frame(1) [of p s] g by simp
  ultimately show ?thesis
    by (cases r) (simp_all add: start_def g build_request_ignores_token split: sum.splits)
qed

lemma fetched_handleServerResponse:
  "fetched (snd (handleServerResponse p res n s)) = fetched s"
  by (simp add: handleServerResponse_def case_prod_beta untouched_reject responseError_eq
      split: sum.splits)

lemma fetched_send:
  "fetched (snd (send p n s)) =
     fetched s @ (case fst (getSigningToken p s) of
                    Inl e \<Rightarrow> []
                  | Inr tok \<Rightarrow>
                      (case build_request p (client s) tok n of Inl e \<Rightarrow> [] | Inr req \<Rightarrow> [req]))"
  by (simp add: send_def start_eq getSigningToken_frame(1) fetched_handleServerResponse
      split: sum.splits)

lemma build_request_Inr:
  "build_request p c tok n = Inr req \<longleftrightarrow>
     (\<exists>h. build_headers p c tok n = Inr h
        \<and> req = \<lparr>url = build_url p c n, http_method = ''POST'', headers = h,
                  body = JSON_stringify p (buildApnsOptions n), keepalive = keepAlive c\<rparr>)"
  by (auto simp: build_request_def and_then_Inr)

lemma sent_request:
  assumes "fetched (snd (send p n s)) = fetched s @ [req]"
  shows "\<exists>tok h. fst (getSigningToken p s) = Inr tok
     \<and> build_headers p (client s) tok n = Inr h
     \<and> req = \<lparr>url = build_url p (client s) n, http_method = ''POST'', headers = h,
               body = JSON_stringify p (buildApnsOptions n), keepalive = keepAlive (client s)\<rparr>"
proof -
  from assms obtain tok where t: "fst (getSigningToken p s) = Inr tok"
    and "build_request p (client s) tok n = Inr req"
    by (auto simp: fetched_send split: sum.splits)
  then show ?thesis
    by (auto simp: build_request_Inr)
qed

lemma send_hands_over:
  assumes "fst (getSigningToken p s) = Inr tok" and "build_headers p (client s) tok n = Inr h"
  shows "fetched (snd (send p n s)) =
     fetched s @ [\<lparr>url = build_url p (client s) n, http_method = ''POST'', headers = h,
                   body = JSON_stringify p (buildApnsOptions n),
                   keepalive = keepAlive (client s)\<rparr>]"
  using assms by (simp add: fetched_send build_request_def and_then_def)

lemma send_refused:
  assumes "fst (getSigningToken p s) = Inr tok" and "build_headers p (client s) tok n = Inl e"
  shows "fst (send p n s) = Inl e" and "fetched (snd (send p n s)) = fetched s"
  using assms by (simp_all add: send_def start_eq build_request_def and_then_def
      getSigningToken_frame(1))

lemma fetched_initial: "fetched (initial c) = []"
  by (simp add: initial_def)

lemma sample_token:
  "fst (getSigningToken sample_platform (initial sample_client)) = Inr ''jwt.KEY1234567.TEAM123456''"
  by (simp add: getSigningToken_def cached_value_def Date_now_def Let_def
      initial_def sample_client_def new_ApnsClient_def sample_platform_def sample_options_def)

lemma client_initial: "client (initial c) = c"
  by (simp add: initial_def)

lemma build_headers_accepts:
  assumes "header_value (''bearer '' @ tok)" and "header_value (pushType n)"
    and "case (case topic (options n) of None \<Rightarrow> defaultTopic c | Some t \<Rightarrow> Some t) of
           None \<Rightarrow> True | Some t \<Rightarrow> header_value t"
    and "case collapseId (options n) of None \<Rightarrow> True | Some i \<Rightarrow> header_value i"
  shows "\<exists>h. build_headers p c tok n = Inr h"
proof -
  have pr: "header_value (toString p i)" for i
    by (simp add: header_value_plain plain_toString)
  have ex: "header_value (toFixed0 p x)" for x
    by (simp add: header_value_plain plain_toFixed0)
  from assms show ?thesis
    by (cases "topic (options n)"; cases "defaultTopic c"; cases "expiration (options n)";
        cases "collapseId (options n)")
      (simp_all add: build_headers_def and_then_def Headers_set_def pr ex split: Expiration.splits)
qed

lemma sample_accepts:
  assumes "pushType n = ''alert''"
    and "topic (options n) = None \<or> topic (options n) = Some []
         \<or> topic (options n) = Some '' com.example.other ''
         \<or> topic (options n) = Some ''com.example.other''"
    and "collapseId (options n) = None"
  shows "\<exists>h. build_headers sample_platform sample_client ''jwt.KEY1234567.TEAM123456'' n = Inr h"
proof (rule build_headers_accepts)
  show "header_value (''bearer '' @ ''jwt.KEY1234567.TEAM123456'')"
    by (simp add: header_value_def normalize_def http_whitespace_def)
  show "header_value (pushType n)"
    using assms(1) by (simp add: header_value_def normalize_def http_whitespace_def)
  have "header_value ''com.example.app''" "header_value []"
    "header_value '' com.example.other ''" "header_value ''com.example.other''"
    by (simp_all add: header_value_def normalize_def http_whitespace_def)
  moreover have "defaultTopic sample_client = Some ''com.example.app''"
    by (simp add: sample_client_def new_ApnsClient_def sample_options_def)
  ultimately show "case (case topic (options n) of None \<Rightarrow> defaultTopic sample_client
      | Some t \<Rightarrow> Some t) of None \<Rightarrow> True | Some t \<Rightarrow> header_value t"
    using assms(2) by auto
  show "case collapseId (options n) of None \<Rightarrow> True | Some i \<Rightarrow> header_value i"
    using assms(3) by simp
qed

lemma sample_send:
  assumes "pushType n = ''alert''"
    and "topic (options n) = None \<or> topic (options n) = Some []
         \<or> topic (options n) = Some '' com.example.other ''
         \<or> topic (options n) = Some ''com.example.other''"
    and "collapseId (options n) = None"
  obtains h where
    "build_headers sample_platform sample_client ''jwt.KEY1234567.TEAM123456'' n = Inr h"
    "fetched (snd (send sample_platform n (initial sample_client))) =
       [\<lparr>url = build_url sample_platform sample_client n, http_method = ''POST'', headers = h,
         body = JSON_stringify sample_platform (buildApnsOptions n),
         keepalive = keepAlive sample_client\<rparr>]"
proof -
  obtain h where h: "build_headers sample_platform sample_client ''jwt.KEY1234567.TEAM123456'' n = Inr h"
    using sample_accepts [OF assms] by blast
  then have "fetched (snd (send sample_platform n (initial sample_client))) =
       [\<lparr>url = build_url sample_platform sample_client n, http_method = ''POST'', headers = h,
         body = JSON_stringify sample_platform (buildApnsOptions n),
         keepalive = keepAlive sample_client\<rparr>]"
    using send_hands_over [of sample_platform "initial sample_client" _ n h] sample_token
    by (simp add: client_initial fetched_initial)
  with h show thesis
    by (rule that)
qed

lemma same_headers_for_instant:
  "rat_of_int ms / 1000 = x \<Longrightarrow>
   build_headers p c tok (n\<lparr>options := (options n)\<lparr>expiration := Some (ExpDate ms)\<rparr>\<rparr>)
     = build_headers p c tok (n\<lparr>options := (options n)\<lparr>expiration := Some (ExpNumber x)\<rparr>\<rparr>)"
  by (auto simp add: build_headers_def cong: if_cong)

lemma sample_seconds_eq:
  "sample_seconds = sample_notification\<lparr>options := (options sample_notification)
      \<lparr>expiration := Some (ExpNumber 1700003600)\<rparr>\<rparr>"
  "sample_instant = sample_notification\<lparr>options := (options sample_notification)
      \<lparr>expiration := Some (ExpDate 1700003600000)\<rparr>\<rparr>"
  by (simp_all add: sample_seconds_def sample_instant_def sample_notification_def)

lemma sample_refused:
  "build_headers sample_platform sample_client ''jwt.KEY1234567.TEAM123456'' sample_broken
     = Inl (TypeError ''Invalid header value'')"
proof -
  have v: "header_value (''bearer '' @ ''jwt.KEY1234567.TEAM123456'')" "header_value ''alert''"
    "header_value ''com.example.app''" "\<not> header_value [CHR ''a'', CHR 0x0A, CHR ''b'']"
    by (simp_all add: header_value_def normalize_def http_whitespace_def)
  have "header_value (toString sample_platform 5)"
    by (simp add: header_value_plain plain_toString)
  with v show ?thesis
    by (simp add: build_headers_def and_then_def Headers_set_def sample_broken_def
        sample_notification_def sample_client_def new_ApnsClient_def sample_options_def)
qed

text \<open>
  C6. In the request that \<^verbatim>\<open>send\<close> hands to \<^verbatim>\<open>fetch\<close>, the header \<^verbatim>\<open>apns-priority\<close> is
  absent when the notification's priority is \<^verbatim>\<open>Priority.immediate\<close>, and is otherwise the
  priority printed by \<^verbatim>\<open>toString()\<close>: for a priority that is not negative, the decimal
  digits that denote it.
\<close>

theorem priority_header_unless_immediate:
  "fetched (snd (send p n s)) = fetched s @ [req] \<longrightarrow>
     (priority n = Priority_immediate p \<longrightarrow> headers req ''apns-priority'' = None)
     \<and> (priority n \<noteq> Priority_immediate p \<longrightarrow>
           headers req ''apns-priority'' = Some (toString p (priority n))
           \<and> (0 \<le> priority n \<and> priority n < 10 ^ 21 \<longrightarrow>
                 int (numeric_value (toString p (priority n))) = priority n))"
proof
  assume "fetched (snd (send p n s)) = fetched s @ [req]"
  then obtain tok h where "build_headers p (client s) tok n = Inr h" and "headers req = h"
    using sent_request by fastforce
  then have "headers req ''apns-priority'' =
      (if priority n = Priority_immediate p then None else Some (toString p (priority n)))"
    by (simp add: priority_header)
  moreover have "int (numeric_value (toString p (priority n))) = priority n"
    if "0 \<le> priority n \<and> priority n < 10 ^ 21"
    using that by (simp add: toString_def numeric_value_decimal)
  ultimately show "(priority n = Priority_immediate p \<longrightarrow> headers req ''apns-priority'' = None)
     \<and> (priority n \<noteq> Priority_immediate p \<longrightarrow>
           headers req ''apns-priority'' = Some (toString p (priority n))
           \<and> (0 \<le> priority n \<and> priority n < 10 ^ 21 \<longrightarrow>
                 int (numeric_value (toString p (priority n))) = priority n))"
    by simp
qed

theorem priority_header_unless_immediate_witness:
  "priority sample_notification = 5
   \<and> Priority_immediate sample_platform = 10
   \<and> map (\<lambda>r. headers r ''apns-priority'')
        (fetched (snd (send sample_platform sample_notification (initial sample_client))))
       = [Some ''5'']
   \<and> map (\<lambda>r. headers r ''apns-priority'')
        (fetched (snd (send sample_platform (sample_notification\<lparr>priority := 10\<rparr>)
           (initial sample_client))))
       = [None]"
proof -
  let ?urgent = "sample_notification\<lparr>priority := 10\<rparr>"
  have five: "priority sample_notification = 5" and ten: "priority ?urgent = 10"
    and imm: "Priority_immediate sample_platform = 10"
    by (simp_all add: sample_notification_def sample_platform_def)
  obtain h where h: "fetched (snd (send sample_platform sample_notification (initial sample_client))) =
       [\<lparr>url = build_url sample_platform sample_client sample_notification, http_method = ''POST'',
         headers = h, body = JSON_stringify sample_platform (buildApnsOptions sample_notification),
         keepalive = keepAlive sample_client\<rparr>]"
    by (rule sample_send [of sample_notification]) (simp_all add: sample_notification_def)
  obtain g where g: "fetched (snd (send sample_platform ?urgent (initial sample_client))) =
       [\<lparr>url = build_url sample_platform sample_client ?urgent, http_method = ''POST'',
         headers = g, body = JSON_stringify sample_platform (buildApnsOptions ?urgent),
         keepalive = keepAlive sample_client\<rparr>]"
    by (rule sample_send [of ?urgent]) (simp_all add: sample_notification_def)
  have "h ''apns-priority'' = Some (toString sample_platform 5)"
    using priority_header_unless_immediate [of sample_platform sample_notification
        "initial sample_client"
        "\<lparr>url = build_url sample_platform sample_client sample_notification, http_method = ''POST'',
         headers = h, body = JSON_stringify sample_platform (buildApnsOptions sample_notification),
         keepalive = keepAlive sample_client\<rparr>"] h five imm
    by (simp add: fetched_initial)
  moreover have "toString sample_platform 5 = ''5''"
    by (simp add: toString_def decimal_5)
  moreover have "g ''apns-priority'' = None"
    using priority_header_unless_immediate [of sample_platform ?urgent "initial sample_client"
        "\<lparr>url = build_url sample_platform sample_client ?urgent, http_method = ''POST'',
         headers = g, body = JSON_stringify sample_platform (buildApnsOptions ?urgent),
         keepalive = keepAlive sample_client\<rparr>"]
      g ten imm
    by (simp add: fetched_initial)
  ultimately show ?thesis
    using h g five imm by simp
qed

text \<open>
  C7. Take a number of seconds and an instant whose milliseconds divided by 1000 are
  that number. When the token is acquired and \<^verbatim>\<open>Headers.set\<close> accepts every value of the
  one notification, it accepts every value of the other and the headers are the same;
  both calls of \<^verbatim>\<open>send\<close> hand \<^verbatim>\<open>fetch\<close> the same request, whose \<^verbatim>\<open>apns-expiration\<close> header
  is the number printed by \<^verbatim>\<open>toFixed(0)\<close>, without a decimal point for a magnitude below
  \<open>10\<^sup>2\<^sup>1\<close>.
\<close>

theorem expiration_number_and_instant_agree:
  "rat_of_int ms / 1000 = x
   \<and> fst (getSigningToken p s) = Inr tok
   \<and> build_headers p (client s) tok
         (n\<lparr>options := (options n)\<lparr>expiration := Some (ExpNumber x)\<rparr>\<rparr>) = Inr h
   \<longrightarrow> build_headers p (client s) tok
         (n\<lparr>options := (options n)\<lparr>expiration := Some (ExpDate ms)\<rparr>\<rparr>) = Inr h
       \<and> h ''apns-expiration'' = Some (toFixed0 p x)
       \<and> (\<bar>x\<bar> < 10 ^ 21 \<longrightarrow> CHR ''.'' \<notin> set (toFixed0 p x))
       \<and> fetched (snd (send p (n\<lparr>options := (options n)\<lparr>expiration := Some (ExpNumber x)\<rparr>\<rparr>) s))
           = fetched s @ [\<lparr>url = build_url p (client s) n, http_method = ''POST'', headers = h,
                            body = JSON_stringify p (buildApnsOptions n),
                            keepalive = keepAlive (client s)\<rparr>]
       \<and> fetched (snd (send p (n\<lparr>options := (options n)\<lparr>expiration := Some (ExpDate ms)\<rparr>\<rparr>) s))
           = fetched s @ [\<lparr>url = build_url p (client s) n, http_method = ''POST'', headers = h,
                            body = JSON_stringify p (buildApnsOptions n),
                            keepalive = keepAlive (client s)\<rparr>]"
proof
  let ?nx = "n\<lparr>options := (options n)\<lparr>expiration := Some (ExpNumber x)\<rparr>\<rparr>"
  let ?nd = "n\<lparr>options := (options n)\<lparr>expiration := Some (ExpDate ms)\<rparr>\<rparr>"
  let ?r = "\<lparr>url = build_url p (client s) n, http_method = ''POST'', headers = h,
             body = JSON_stringify p (buildApnsOptions n), keepalive = keepAlive (client s)\<rparr>"
  assume a: "rat_of_int ms / 1000 = x \<and> fst (getSigningToken p s) = Inr tok
     \<and> build_headers p (client s) tok ?nx = Inr h"
  then have hx: "build_headers p (client s) tok ?nx = Inr h"
    and t: "fst (getSigningToken p s) = Inr tok"
    by simp_all
  from a have hd: "build_headers p (client s) tok ?nd = Inr h"
    by (simp add: same_headers_for_instant)
  have e: "h ''apns-expiration'' = Some (toFixed0 p x)"
    using expiration_header [OF hx] by simp
  have u: "build_url p (client s) ?nx = build_url p (client s) n"
    "build_url p (client s) ?nd = build_url p (client s) n"
    by (simp_all add: build_url_def)
  have sx: "fetched (snd (send p ?nx s)) = fetched s @ [?r]"
    using send_hands_over [OF t hx] u by simp
  have sd: "fetched (snd (send p ?nd s)) = fetched s @ [?r]"
    using send_hands_over [OF t hd] u by simp
  show "build_headers p (client s) tok ?nd = Inr h
       \<and> h ''apns-expiration'' = Some (toFixed0 p x)
       \<and> (\<bar>x\<bar> < 10 ^ 21 \<longrightarrow> CHR ''.'' \<notin> set (toFixed0 p x))
       \<and> fetched (snd (send p ?nx s)) = fetched s @ [?r]
       \<and> fetched (snd (send p ?nd s)) = fetched s @ [?r]"
    using hd e sx sd by (simp add: point_free_toFixed0)
qed

theorem expiration_number_and_instant_agree_witness:
  "rat_of_int 1700003600000 / 1000 = 1700003600
   \<and> fst (getSigningToken sample_platform (initial sample_client))
       = Inr ''jwt.KEY1234567.TEAM123456''
   \<and> map (\<lambda>r. headers r ''apns-expiration'')
        (fetched (snd (send sample_platform sample_seconds (initial sample_client))))
       = [Some ''1700003600'']
   \<and> map (\<lambda>r. headers r ''apns-expiration'')
        (fetched (snd (send sample_platform sample_instant (initial sample_client))))
       = [Some ''1700003600'']
   \<and> fetched (snd (send sample_platform sample_instant (initial sample_client)))
       = fetched (snd (send sample_platform sample_seconds (initial sample_client)))"
proof -
  let ?tok = "''jwt.KEY1234567.TEAM123456''"
  have eq: "rat_of_int 1700003600000 / 1000 = 1700003600"
    by simp
  obtain h where h: "build_headers sample_platform sample_client ?tok sample_seconds = Inr h"
    by (rule sample_send [of sample_seconds])
      (simp_all add: sample_seconds_def sample_notification_def)
  have "toFixed0 sample_platform (rat_of_int 1700003600) = decimal (nat 1700003600)"
    by (rule toFixed0_whole) simp_all
  then have str: "toFixed0 sample_platform 1700003600 = ''1700003600''"
    by (simp add: decimal_1700003600)
  show ?thesis
    using expiration_number_and_instant_agree [of 1700003600000 1700003600 sample_platform
        "initial sample_client" ?tok sample_notification h]
      eq h str sample_token
    by (simp add: sample_seconds_eq client_initial fetched_initial)
qed

text \<open>
  Two notifications sent by a client with a default topic. The topic of the first is
  present and is the empty string: the request has no \<^verbatim>\<open>apns-topic\<close> header. The topic of
  the second has a space at either end: the header is the topic without them. C8 has
  the header equal to the notification's topic in both.
\<close>

theorem blank_topic_omits_header:
  "topic (options sample_blank_topic) = Some []
   \<and> defaultTopic sample_client = Some ''com.example.app''
   \<and> map (\<lambda>r. headers r ''apns-topic'')
        (fetched (snd (send sample_platform sample_blank_topic (initial sample_client))))
       = [None]
   \<and> topic (options sample_padded_topic) = Some '' com.example.other ''
   \<and> map (\<lambda>r. headers r ''apns-topic'')
        (fetched (snd (send sample_platform sample_padded_topic (initial sample_client))))
       = [Some ''com.example.other'']"
proof -
  obtain g where g: "build_headers sample_platform sample_client ''jwt.KEY1234567.TEAM123456''
      sample_padded_topic = Inr g"
    and fg: "fetched (snd (send sample_platform sample_padded_topic (initial sample_client))) =
       [\<lparr>url = build_url sample_platform sample_client sample_padded_topic, http_method = ''POST'',
         headers = g, body = JSON_stringify sample_platform (buildApnsOptions sample_padded_topic),
         keepalive = keepAlive sample_client\<rparr>]"
    by (rule sample_send [of sample_padded_topic])
      (simp_all add: sample_padded_topic_def sample_notification_def)
  have tg: "topic (options sample_padded_topic) = Some '' com.example.other ''"
    by (simp add: sample_padded_topic_def)
  have "g ''apns-topic'' = Some (normalize '' com.example.other '')"
    using topic_header [OF g] tg by simp
  then have pg: "g ''apns-topic'' = Some ''com.example.other''"
    by (simp add: normalize_def http_whitespace_def)
  obtain h where h: "build_headers sample_platform sample_client ''jwt.KEY1234567.TEAM123456''
      sample_blank_topic = Inr h"
    and f: "fetched (snd (send sample_platform sample_blank_topic (initial sample_client))) =
       [\<lparr>url = build_url sample_platform sample_client sample_blank_topic, http_method = ''POST'',
         headers = h, body = JSON_stringify sample_platform (buildApnsOptions sample_blank_topic),
         keepalive = keepAlive sample_client\<rparr>]"
    by (rule sample_send [of sample_blank_topic])
      (simp_all add: sample_blank_topic_def sample_notification_def)
  have t: "topic (options sample_blank_topic) = Some []"
    by (simp add: sample_blank_topic_def)
  have "h ''apns-topic'' = None"
    using topic_header [OF h] t by simp
  moreover have "defaultTopic sample_client = Some ''com.example.app''"
    by (simp add: sample_client_def new_ApnsClient_def sample_options_def)
  ultimately show ?thesis
    using f t fg tg pg by simp
qed

text \<open>
  C8, as the code has it. In a request that \<^verbatim>\<open>send\<close> hands to \<^verbatim>\<open>fetch\<close>, the header
  \<^verbatim>\<open>apns-topic\<close> is the notification's topic, stripped of the HTTP white space at its
  ends, when the topic is present and not the empty string; when the notification has no
  topic it is the client's default topic, stripped likewise, if that is present and not
  the empty string; in every other case the header is absent, also for an empty topic on
  a client that has a default. The request is handed over whenever the token is acquired
  and \<^verbatim>\<open>Headers.set\<close> accepts every value; when it throws, \<^verbatim>\<open>send\<close> rejects with its
  exception and \<^verbatim>\<open>fetch\<close> is not called.
\<close>

theorem topic_header_when_not_blank:
  "(fetched (snd (send p n s)) = fetched s @ [req] \<longrightarrow>
      headers req ''apns-topic'' =
        (case topic (options n) of
           Some t \<Rightarrow> if t = [] then None else Some (normalize t)
         | None \<Rightarrow> (case defaultTopic (client s) of
                      Some d \<Rightarrow> if d = [] then None else Some (normalize d)
                    | None \<Rightarrow> None)))
   \<and> (fst (getSigningToken p s) = Inr tok \<and> build_headers p (client s) tok n = Inr h \<longrightarrow>
        fetched (snd (send p n s)) =
          fetched s @ [\<lparr>url = build_url p (client s) n, http_method = ''POST'', headers = h,
                        body = JSON_stringify p (buildApnsOptions n),
                        keepalive = keepAlive (client s)\<rparr>])
   \<and> (fst (getSigningToken p s) = Inr tok \<and> build_headers p (client s) tok n = Inl e \<longrightarrow>
        fst (send p n s) = Inl e \<and> fetched (snd (send p n s)) = fetched s)"
proof (intro conjI impI)
  assume "fetched (snd (send p n s)) = fetched s @ [req]"
  then obtain tok h where "build_headers p (client s) tok n = Inr h" and "headers req = h"
    using sent_request by fastforce
  then show "headers req ''apns-topic'' =
        (case topic (options n) of
           Some t \<Rightarrow> if t = [] then None else Some (normalize t)
         | None \<Rightarrow> (case defaultTopic (client s) of
                      Some d \<Rightarrow> if d = [] then None else Some (normalize d)
                    | None \<Rightarrow> None))"
    by (simp add: topic_header)
next
  assume "fst (getSigningToken p s) = Inr tok \<and> build_headers p (client s) tok n = Inr h"
  then show "fetched (snd (send p n s)) =
          fetched s @ [\<lparr>url = build_url p (client s) n, http_method = ''POST'', headers = h,
                        body = JSON_stringify p (buildApnsOptions n),
                        keepalive = keepAlive (client s)\<rparr>]"
    by (simp add: send_hands_over)
next
  assume a: "fst (getSigningToken p s) = Inr tok \<and> build_headers p (client s) tok n = Inl e"
  then show "fst (send p n s) = Inl e"
    using send_refused(1) [of p s tok n e] by simp
  from a show "fetched (snd (send p n s)) = fetched s"
    using send_refused(2) [of p s tok n e] by simp
qed

theorem topic_header_when_not_blank_witness:
  "fst (getSigningToken sample_platform (initial sample_client))
     = Inr ''jwt.KEY1234567.TEAM123456''
   \<and> map (\<lambda>r. headers r ''apns-topic'')
        (fetched (snd (send sample_platform sample_notification (initial sample_client))))
       = [Some ''com.example.app'']
   \<and> map (\<lambda>r. headers r ''apns-topic'')
        (fetched (snd (send sample_platform sample_padded_topic (initial sample_client))))
       = [Some ''com.example.other'']
   \<and> fst (send sample_platform sample_broken (initial sample_client))
       = Inl (TypeError ''Invalid header value'')
   \<and> fetched (snd (send sample_platform sample_broken (initial sample_client))) = []"
proof -
  let ?tok = "''jwt.KEY1234567.TEAM123456''"
  obtain h where h: "build_headers sample_platform sample_client ?tok sample_notification = Inr h"
    by (rule sample_send [of sample_notification]) (simp_all add: sample_notification_def)
  obtain g where g: "build_headers sample_platform sample_client ?tok sample_padded_topic = Inr g"
    by (rule sample_send [of sample_padded_topic])
      (simp_all add: sample_padded_topic_def sample_notification_def)
  let ?rh = "\<lparr>url = build_url sample_platform sample_client sample_notification,
      http_method = ''POST'', headers = h,
      body = JSON_stringify sample_platform (buildApnsOptions sample_notification),
      keepalive = keepAlive sample_client\<rparr>"
  let ?rg = "\<lparr>url = build_url sample_platform sample_client sample_padded_topic,
      http_method = ''POST'', headers = g,
      body = JSON_stringify sample_platform (buildApnsOptions sample_padded_topic),
      keepalive = keepAlive sample_client\<rparr>"
  have c: "defaultTopic sample_client = Some ''com.example.app''"
    "topic (options sample_notification) = None"
    "topic (options sample_padded_topic) = Some '' com.example.other ''"
    by (simp_all add: sample_client_def new_ApnsClient_def sample_options_def
        sample_notification_def sample_padded_topic_def)
  have nz: "normalize ''com.example.app'' = ''com.example.app''"
    "normalize '' com.example.other '' = ''com.example.other''"
    by (simp_all add: normalize_def http_whitespace_def)
  note a = topic_header_when_not_blank [of sample_platform sample_notification
      "initial sample_client" ?rh ?tok h]
  note b = topic_header_when_not_blank [of sample_platform sample_padded_topic
      "initial sample_client" ?rg ?tok g]
  note r = topic_header_when_not_blank [of sample_platform sample_broken
      "initial sample_client" _ ?tok _ "TypeError ''Invalid header value''"]
  from a h have fh: "fetched (snd (send sample_platform sample_notification (initial sample_client)))
      = [?rh]"
    using sample_token by (simp add: client_initial fetched_initial)
  with a have "h ''apns-topic'' = Some ''com.example.app''"
    using c nz by (simp add: client_initial fetched_initial)
  moreover from b g have fg: "fetched (snd (send sample_platform sample_padded_topic
      (initial sample_client))) = [?rg]"
    using sample_token by (simp add: client_initial fetched_initial)
  with b have "g ''apns-topic'' = Some ''com.example.other''"
    using c nz by (simp add: client_initial fetched_initial)
  moreover from r have "fst (send sample_platform sample_broken (initial sample_client))
       = Inl (TypeError ''Invalid header value'')
     \<and> fetched (snd (send sample_platform sample_broken (initial sample_client))) = []"
    using sample_token sample_refused by (simp add: client_initial fetched_initial)
  ultimately show ?thesis
    using fh fg sample_token by simp
qed

text \<open>
  C10. The constructor does not read \<^verbatim>\<open>requestTimeout\<close>: the client built from options
  with any other value of it is the same client, so \<^verbatim>\<open>send\<close> and \<^verbatim>\<open>sendMany\<close> return
  the same and leave the same state, and the request handed to \<^verbatim>\<open>fetch\<close> consists of
  the URL, the method, the headers, the body and the keep-alive preference, none of which
  depends on it.
\<close>

theorem requestTimeout_has_no_effect:
  "new_ApnsClient (opts\<lparr>opt_requestTimeout := t\<rparr>) = new_ApnsClient opts
   \<and> send p n (s\<lparr>client := new_ApnsClient (opts\<lparr>opt_requestTimeout := t\<rparr>)\<rparr>)
       = send p n (s\<lparr>client := new_ApnsClient opts\<rparr>)
   \<and> sendMany p ns sched (s\<lparr>client := new_ApnsClient (opts\<lparr>opt_requestTimeout := t\<rparr>)\<rparr>)
       = sendMany p ns sched (s\<lparr>client := new_ApnsClient opts\<rparr>)
   \<and> fetched (snd (send p n (initial (new_ApnsClient (opts\<lparr>opt_requestTimeout := t\<rparr>))))) =
       (case fst (getSigningToken p (initial (new_ApnsClient opts))) of
          Inl e \<Rightarrow> []
        | Inr tok \<Rightarrow>
            (case build_headers p (new_ApnsClient opts) tok n of
               Inl e \<Rightarrow> []
             | Inr h \<Rightarrow>
                 [\<lparr>url = build_url p (new_ApnsClient opts) n,
                   http_method = ''POST'',
                   headers = h,
                   body = JSON_stringify p (buildApnsOptions n),
                   keepalive = (case opt_keepAlive opts of None \<Rightarrow> True | Some k \<Rightarrow> k)\<rparr>]))"
proof -
  have c: "new_ApnsClient (opts\<lparr>opt_requestTimeout := t\<rparr>) = new_ApnsClient opts"
    by (simp add: new_ApnsClient_def)
  have "keepAlive (new_ApnsClient opts) = (case opt_keepAlive opts of None \<Rightarrow> True | Some k \<Rightarrow> k)"
    by (simp add: new_ApnsClient_def)
  then show ?thesis
    by (simp add: c fetched_send fetched_initial client_initial build_request_def and_then_def
        split: sum.splits)
qed

theorem requestTimeout_has_no_effect_witness:
  "new_ApnsClient (sample_options\<lparr>opt_requestTimeout := None\<rparr>) = sample_client
   \<and> send sample_platform sample_notification
         (initial (new_ApnsClient (sample_options\<lparr>opt_requestTimeout := None\<rparr>)))
       = send sample_platform sample_notification (initial sample_client)"
  using requestTimeout_has_no_effect [where opts = sample_options and t = None]
  by (simp add: sample_client_def)

subsection \<open>Sending many\<close>

lemma serves_begin_send: "serves n (fst (begin_send p n s))"
  by (simp add: begin_send_def split: prod.splits sum.splits)

lemma launch_serves: "list_all2 serves ns (fst (launch p ns s))"
proof (induction ns arbitrary: s)
  case Nil
  show ?case by simp
next
  case (Cons n ns)
  have "serves n (fst (begin_send p n s))"
    by (rule serves_begin_send)
  moreover have "list_all2 serves ns (fst (launch p ns (snd (begin_send p n s))))"
    by (rule Cons.IH)
  ultimately show ?case
    by (simp add: case_prod_beta)
qed

lemma serves_resume: "serves n t \<Longrightarrow> serves n (fst (resume p t s))"
  by (cases t) (auto simp: case_prod_beta split: sum.splits)

lemma succeeds_resume: "succeeds p (fst (resume p t s)) = succeeds p t"
  by (cases t) (auto simp: case_prod_beta split: sum.splits)

lemma stretches_resume: "stretches (fst (resume p t s)) \<le> stretches t - 1"
  by (cases t) (auto simp: case_prod_beta split: sum.splits)

lemma fst_advance:
  "fst (advance p i (ts, s)) = (if i < length ts then ts[i := fst (resume p (ts ! i) s)] else ts)"
  by (simp add: advance_def case_prod_beta)

lemma run_Nil: "run p [] cfg = cfg"
  by (simp add: run_def)

lemma run_Cons: "run p (i # sched) cfg = run p sched (advance p i cfg)"
  by (simp add: run_def)

lemma advance_invariant:
  assumes "list_all2 serves ns ts"
  shows "list_all2 serves ns (fst (advance p i (ts, s)))"
    and "map (succeeds p) (fst (advance p i (ts, s))) = map (succeeds p) ts"
proof -
  show "list_all2 serves ns (fst (advance p i (ts, s)))"
  proof (cases "i < length ts")
    case True
    with assms have "serves (ns ! i) (ts ! i)"
      by (simp add: list_all2_nthD2)
    then have "serves (ns ! i) (fst (resume p (ts ! i) s))"
      by (rule serves_resume)
    with assms True show ?thesis
      by (simp add: fst_advance list_all2_conv_all_nth nth_list_update)
  next
    case False
    with assms show ?thesis by (simp add: fst_advance)
  qed
  show "map (succeeds p) (fst (advance p i (ts, s))) = map (succeeds p) ts"
    by (simp add: fst_advance map_update succeeds_resume list_update_same_conv)
qed

lemma run_invariant:
  assumes "list_all2 serves ns (fst cfg)"
  shows "list_all2 serves ns (fst (run p sched cfg))
     \<and> map (succeeds p) (fst (run p sched cfg)) = map (succeeds p) (fst cfg)"
  using assms
proof (induction sched arbitrary: cfg)
  case Nil
  then show ?case by (simp add: run_Nil)
next
  case (Cons i sched)
  obtain ts s where cfg: "cfg = (ts, s)" by (cases cfg)
  with Cons.prems have a: "list_all2 serves ns ts" by simp
  have "list_all2 serves ns (fst (advance p i (ts, s)))"
    and m: "map (succeeds p) (fst (advance p i (ts, s))) = map (succeeds p) ts"
    using advance_invariant [OF a] by simp_all
  then have "list_all2 serves ns (fst (run p sched (advance p i (ts, s))))
     \<and> map (succeeds p) (fst (run p sched (advance p i (ts, s))))
         = map (succeeds p) (fst (advance p i (ts, s)))"
    using Cons.IH by blast
  with m show ?case
    by (simp add: run_Cons cfg)
qed

lemma stretches_advance:
  "k < length ts \<Longrightarrow>
   stretches (fst (advance p i (ts, s)) ! k) \<le> stretches (ts ! k) - (if i = k then 1 else 0)"
  using stretches_resume [of p "ts ! k" s] by (simp add: fst_advance nth_list_update)

lemma length_advance: "length (fst (advance p i cfg)) = length (fst cfg)"
  by (cases cfg) (simp add: fst_advance)

lemma length_run: "length (fst (run p sched cfg)) = length (fst cfg)"
  by (induction sched arbitrary: cfg) (simp_all add: run_Nil run_Cons length_advance)

lemma stretches_run:
  "k < length (fst cfg) \<Longrightarrow>
   stretches (fst (run p sched cfg) ! k) \<le> stretches (fst cfg ! k) - count_list sched k"
proof (induction sched arbitrary: cfg)
  case Nil
  then show ?case by (simp add: run_Nil)
next
  case (Cons i sched)
  obtain ts s where cfg: "cfg = (ts, s)" by (cases cfg)
  with Cons.prems have k: "k < length ts" by simp
  then have "k < length (fst (advance p i (ts, s)))"
    by (simp add: length_advance)
  then have "stretches (fst (run p sched (advance p i (ts, s))) ! k)
      \<le> stretches (fst (advance p i (ts, s)) ! k) - count_list sched k"
    by (rule Cons.IH)
  also have "\<dots> \<le> (stretches (ts ! k) - (if i = k then 1 else 0)) - count_list sched k"
    using stretches_advance [OF k, of p i s] by (rule diff_le_mono)
  finally show ?case
    by (cases "i = k") (simp_all add: run_Cons cfg)
qed

lemma caught_simps:
  "caught (AwaitFetch n k req) = Pending"
  "caught (AwaitJson n res) = Pending"
  "caught (AwaitBody n res b) = Pending"
  "caught (Settled (Inl e)) = Fulfilled (Failed e)"
  "caught (Settled (Inr n)) = Fulfilled (Sent n)"
  by (simp_all add: caught_def catch_error_def promise_of_def)

lemma caught_not_Rejected: "caught t \<noteq> Rejected e"
  by (cases t) (auto simp: caught_def catch_error_def promise_of_def split: sum.splits)

lemma no_first_rejection: "first_rejection (map caught ts) = None"
proof (induction ts)
  case Nil
  show ?case by simp
next
  case (Cons t ts)
  then show ?case
    by (cases "caught t") (simp_all add: caught_not_Rejected)
qed

lemma Promise_all_caught:
  "Promise_all (map caught ts) =
     (case fulfilments (map caught ts) of None \<Rightarrow> Pending | Some vs \<Rightarrow> Fulfilled vs)"
  by (simp add: Promise_all_def no_first_rejection)

lemma fulfilments_positions:
  "fulfilments (map caught ts) = Some rs \<Longrightarrow>
   length rs = length ts
   \<and> (\<forall>i<length ts. caught (ts ! i) = Fulfilled (rs ! i))"
proof (induction ts arbitrary: rs)
  case Nil
  then show ?case by simp
next
  case (Cons t ts)
  from Cons.prems obtain v vs where t: "caught t = Fulfilled v"
    and vs: "fulfilments (map caught ts) = Some vs" and rs: "rs = v # vs"
    by (cases "caught t") auto
  from Cons.IH [OF vs] have "length vs = length ts"
    and "\<forall>i<length ts. caught (ts ! i) = Fulfilled (vs ! i)"
    by simp_all
  with t rs show ?case
    by (auto simp: nth_Cons split: nat.splits)
qed

lemma fulfilments_when_caughtd:
  "(\<forall>t\<in>set ts. stretches t = 0) \<Longrightarrow> \<exists>rs. fulfilments (map caught ts) = Some rs"
proof (induction ts)
  case Nil
  show ?case by simp
next
  case (Cons t ts)
  then obtain vs where "fulfilments (map caught ts) = Some vs"
    by auto
  moreover from Cons.prems obtain r where "t = Settled r"
    by (cases t) auto
  ultimately show ?case
    by (cases r) (simp_all add: caught_simps)
qed

lemma caughtd_outcome:
  assumes "caught t = Fulfilled r" and "serves n t"
  shows "(succeeds p t \<longrightarrow> r = Sent n) \<and> (\<not> succeeds p t \<longrightarrow> (\<exists>e. r = Failed e))"
proof (cases t)
  case (Settled x)
  with assms show ?thesis
    by (cases x) (auto simp: caught_simps)
qed (use assms in \<open>simp_all add: caught_simps\<close>)

lemma length_launch: "length (fst (launch p ns s)) = length ns"
  using launch_serves [of ns p s] by (simp add: list_all2_lengthD)

lemma sendMany_eq:
  "fst (sendMany p ns sched s) = Promise_all (map caught (fst (run p sched (launch p ns s))))"
  by (simp add: sendMany_def case_prod_beta)

lemmas sample_defs =
  initial_def sample_client_def new_ApnsClient_def sample_platform_def sample_options_def

lemma sample_second_token:
  "fst (getSigningToken sample_platform
      ((snd (getSigningToken sample_platform (initial sample_client)))\<lparr>fetched := fs\<rparr>))
     = Inr ''jwt.KEY1234567.TEAM123456''"
  "client (snd (getSigningToken sample_platform (initial sample_client)))
     = sample_client\<lparr>token := Some \<lparr>tok_value = ''jwt.KEY1234567.TEAM123456'',
         tok_timestamp = 1700000001000\<rparr>\<rparr>"
  by (simp_all add: getSigningToken_def cached_value_def Date_now_def Let_def
      RESET_TOKEN_INTERVAL_MS_def sample_defs)

lemma sample_launch:
  "\<exists>r0 r1 s. launch sample_platform [sample_notification, sample_blank_topic] (initial sample_client) =
     ([AwaitFetch sample_notification 0 r0, AwaitFetch sample_blank_topic 1 r1], s)"
proof -
  let ?tok = "''jwt.KEY1234567.TEAM123456''"
  let ?s0 = "initial sample_client"
  obtain h0 where "build_headers sample_platform sample_client ?tok sample_notification = Inr h0"
    by (rule sample_send [of sample_notification]) (simp_all add: sample_notification_def)
  then obtain r0 where r0: "build_request sample_platform (client ?s0) ?tok sample_notification = Inr r0"
    by (simp add: build_request_Inr client_initial)
  obtain h1 where "build_headers sample_platform sample_client ?tok sample_blank_topic = Inr h1"
    by (rule sample_send [of sample_blank_topic])
      (simp_all add: sample_blank_topic_def sample_notification_def)
  then obtain r1 where r1: "build_request sample_platform sample_client ?tok sample_blank_topic = Inr r1"
    by (simp add: build_request_Inr)
  let ?s1 = "(snd (getSigningToken sample_platform ?s0))\<lparr>fetched := fetched ?s0 @ [r0]\<rparr>"
  have b0: "begin_send sample_platform sample_notification ?s0 =
      (AwaitFetch sample_notification 0 r0, ?s1)"
    by (simp add: begin_send_def start_eq sample_token r0 fetched_initial)
  have "\<exists>s. begin_send sample_platform sample_blank_topic ?s1 =
      (AwaitFetch sample_blank_topic 1 r1, s)"
    by (simp add: begin_send_def start_eq sample_second_token build_request_ignores_token r1
        fetched_initial)
  with b0 show ?thesis
    by auto
qed

lemma sample_sendMany:
  assumes "sched = [1, 1, 1, 0, 0, 0] \<or> sched = [0, 1, 0, 1, 0, 1]"
  shows "fst (sendMany sample_platform [sample_notification, sample_blank_topic] sched
      (initial sample_client)) =
     Fulfilled [Sent sample_notification,
       Failed (ApnsErr \<lparr>statusCode = 403, notification = sample_blank_topic,
                 response = \<lparr>reason = ''ExpiredProviderToken'', timestamp = None\<rparr>\<rparr>)]"
proof -
  obtain r0 r1 s where
    l: "launch sample_platform [sample_notification, sample_blank_topic] (initial sample_client) =
     ([AwaitFetch sample_notification 0 r0, AwaitFetch sample_blank_topic 1 r1], s)"
    using sample_launch by blast
  have f: "fetch sample_platform 0 r0 = Inr \<lparr>status = 200, res_json = Inl (SyntaxError ''Unexpected end'')\<rparr>"
    "fetch sample_platform (Suc 0) r1 = Inr sample_expired"
    by (simp_all add: sample_platform_def sample_expired_def)
  have st: "status sample_expired = 403" "res_json sample_expired
      = Inr \<lparr>reason = ''ExpiredProviderToken'', timestamp = None\<rparr>"
    by (simp_all add: sample_expired_def)
  from assms show ?thesis
    unfolding sendMany_def l
    by (auto simp add: run_def advance_def Let_def f st
        responseError_def fst_reject case_prod_beta
        Promise_all_def caught_def catch_error_def promise_of_def)
qed

lemma sample_succeeds:
  "succeeds sample_platform
     (fst (launch sample_platform [sample_notification, sample_blank_topic] (initial sample_client)) ! 0)"
  "\<not> succeeds sample_platform
     (fst (launch sample_platform [sample_notification, sample_blank_topic] (initial sample_client)) ! 1)"
proof -
  obtain r0 r1 s where
    l: "launch sample_platform [sample_notification, sample_blank_topic] (initial sample_client) =
     ([AwaitFetch sample_notification 0 r0, AwaitFetch sample_blank_topic 1 r1], s)"
    using sample_launch by blast
  have f: "fetch sample_platform 0 r0 = Inr \<lparr>status = 200, res_json = Inl (SyntaxError ''Unexpected end'')\<rparr>"
    "fetch sample_platform (Suc 0) r1 = Inr sample_expired"
    by (simp_all add: sample_platform_def sample_expired_def)
  show "succeeds sample_platform
     (fst (launch sample_platform [sample_notification, sample_blank_topic] (initial sample_client)) ! 0)"
    unfolding l by (simp add: f)
  show "\<not> succeeds sample_platform
     (fst (launch sample_platform [sample_notification, sample_blank_topic] (initial sample_client)) ! 1)"
    unfolding l by (simp add: f sample_expired_def)
qed

text \<open>
  The task model agrees with \<^verbatim>\<open>send\<close>: one notification, run to its end, settles as
  \<^verbatim>\<open>send\<close> does and leaves the same state.
\<close>

lemma sendMany_single:
  "sendMany p [n] [0, 0, 0] s =
     (Fulfilled [case fst (send p n s) of Inl e \<Rightarrow> Failed e | Inr m \<Rightarrow> Sent m], snd (send p n s))"
proof (cases "start p n s")
  case (Pair r s1)
  show ?thesis
  proof (cases r)
    case (Inl e)
    with Pair show ?thesis
      by (simp add: sendMany_def send_def begin_send_def run_def advance_def
          Promise_all_def caught_def catch_error_def promise_of_def)
  next
    case (Inr kr)
    obtain k req where kr: "kr = (k, req)" by (cases kr)
    show ?thesis
    proof (cases "fetch p k req")
      case (Inl e)
      with Pair Inr kr show ?thesis
        by (simp add: sendMany_def send_def begin_send_def run_def advance_def
            Promise_all_def caught_def catch_error_def promise_of_def)
    next
      case res: (Inr res)
      with Pair Inr kr show ?thesis
        by (simp add: sendMany_def send_def begin_send_def run_def advance_def
            handleServerResponse_def case_prod_beta Let_def
            Promise_all_def caught_def catch_error_def promise_of_def)
    qed
  qed
qed

text \<open>
  C4. Whatever the order in which the calls resume, the promise of \<^verbatim>\<open>sendMany\<close> never
  rejects; when it is fulfilled, the list has the length of the input, and at each
  position stands the notification of that position if its call succeeded, and an
  \<^verbatim>\<open>{ error }\<close> object if it failed; and it is fulfilled once every call has had the three
  stretches it needs at most.
\<close>

theorem sendMany_aligned_with_input:
  "(\<forall>e. fst (sendMany p ns sched s) \<noteq> Rejected e)
   \<and> (\<forall>rs. fst (sendMany p ns sched s) = Fulfilled rs \<longrightarrow>
         length rs = length ns
         \<and> (\<forall>i<length ns.
               (succeeds p (fst (launch p ns s) ! i) \<longrightarrow> rs ! i = Sent (ns ! i))
               \<and> (\<not> succeeds p (fst (launch p ns s) ! i) \<longrightarrow> (\<exists>e. rs ! i = Failed e))))
   \<and> ((\<forall>i<length ns. 3 \<le> count_list sched i) \<longrightarrow>
         (\<exists>rs. fst (sendMany p ns sched s) = Fulfilled rs))"
proof (intro conjI allI impI)
  define ts where "ts = fst (run p sched (launch p ns s))"
  have res: "fst (sendMany p ns sched s) =
      (case fulfilments (map caught ts) of None \<Rightarrow> Pending | Some vs \<Rightarrow> Fulfilled vs)"
    by (simp add: sendMany_eq Promise_all_caught ts_def)
  have inv: "list_all2 serves ns ts"
    and same: "map (succeeds p) ts = map (succeeds p) (fst (launch p ns s))"
    using run_invariant [of ns "launch p ns s" p sched] launch_serves [of ns p s]
    by (simp_all add: ts_def)
  have len: "length ts = length ns"
    using inv by (simp add: list_all2_lengthD)
  {
    fix e
    show "fst (sendMany p ns sched s) \<noteq> Rejected e"
      by (simp add: res split: option.splits)
  }
  {
    fix rs
    assume "fst (sendMany p ns sched s) = Fulfilled rs"
    then have f: "fulfilments (map caught ts) = Some rs"
      by (simp add: res split: option.splits)
    from fulfilments_positions [OF f] len
    show "length rs = length ns" by simp
    fix i
    assume i: "i < length ns"
    with fulfilments_positions [OF f] len have st: "caught (ts ! i) = Fulfilled (rs ! i)"
      by simp
    from inv i len have sv: "serves (ns ! i) (ts ! i)"
      by (simp add: list_all2_nthD2)
    from same i len have sc: "succeeds p (ts ! i) = succeeds p (fst (launch p ns s) ! i)"
      by (metis length_launch nth_map)
    {
      assume "succeeds p (fst (launch p ns s) ! i)"
      with caughtd_outcome [OF st sv, of p] sc show "rs ! i = Sent (ns ! i)" by simp
    }
    {
      assume "\<not> succeeds p (fst (launch p ns s) ! i)"
      with caughtd_outcome [OF st sv, of p] sc show "\<exists>e. rs ! i = Failed e" by simp
    }
  }
  {
    assume fair: "\<forall>i<length ns. 3 \<le> count_list sched i"
    have "\<forall>t\<in>set ts. stretches t = 0"
    proof
      fix t
      assume "t \<in> set ts"
      then obtain i where i: "i < length ts" and t: "t = ts ! i"
        by (auto simp: in_set_conv_nth)
      from i have il: "i < length (fst (launch p ns s))"
        by (simp add: len length_launch)
      have "stretches (fst (launch p ns s) ! i) \<le> 3"
        by (cases "fst (launch p ns s) ! i") simp_all
      moreover have "3 \<le> count_list sched i"
        using fair i len by simp
      ultimately show "stretches t = 0"
        using stretches_run [OF il, of p sched] by (simp add: t ts_def)
    qed
    then obtain rs where "fulfilments (map caught ts) = Some rs"
      using fulfilments_when_caughtd by blast
    then show "\<exists>rs. fst (sendMany p ns sched s) = Fulfilled rs"
      by (simp add: res)
  }
qed

theorem sendMany_aligned_with_input_witness:
  "fst (sendMany sample_platform [sample_notification, sample_blank_topic] [1, 1, 1, 0, 0, 0]
      (initial sample_client)) =
     Fulfilled [Sent sample_notification,
       Failed (ApnsErr \<lparr>statusCode = 403, notification = sample_blank_topic,
                 response = \<lparr>reason = ''ExpiredProviderToken'', timestamp = None\<rparr>\<rparr>)]
   \<and> fst (sendMany sample_platform [sample_notification, sample_blank_topic] [0, 1, 0, 1, 0, 1]
      (initial sample_client)) =
     Fulfilled [Sent sample_notification,
       Failed (ApnsErr \<lparr>statusCode = 403, notification = sample_blank_topic,
                 response = \<lparr>reason = ''ExpiredProviderToken'', timestamp = None\<rparr>\<rparr>)]
   \<and> succeeds sample_platform
     (fst (launch sample_platform [sample_notification, sample_blank_topic] (initial sample_client)) ! 0)
   \<and> \<not> succeeds sample_platform
     (fst (launch sample_platform [sample_notification, sample_blank_topic] (initial sample_client)) ! 1)
   \<and> (3::nat) \<le> count_list [1, 1, 1, 0, 0, 0] (0::nat)
   \<and> (3::nat) \<le> count_list [1, 1, 1, 0, 0, 0] (1::nat)"
  using sendMany_aligned_with_input [of sample_platform "[sample_notification, sample_blank_topic]"
      "[1, 1, 1, 0, 0, 0]" "initial sample_client"]
    sendMany_aligned_with_input [of sample_platform "[sample_notification, sample_blank_topic]"
      "[0, 1, 0, 1, 0, 1]" "initial sample_client"]
    sample_succeeds
  by (simp add: sample_sendMany)

end
